theory Spec2Isabelle
  imports Main "HOL-Library.Char_ord" "HOL-Library.List_Lexorder" "HOL-Library.Product_Lexorder"
begin

section \<open>Python strings\<close>

text \<open>
  Python \<open>str\<close> values are modelled as \<open>string\<close>: a character is a code point below 256
  (ASCII and Latin-1). The character classes are those of Python on these code points:
  \<open>\d\<close> and \<open>[A-Za-z]\<close> of the regular expressions, \<open>str.isdigit\<close>, \<open>str.isspace\<close> (which is
  also \<open>\s\<close> and what \<open>str.strip\<close> removes), \<open>\w\<close> and \<open>str.lower\<close>.
\<close>

definition is_digit :: "char \<Rightarrow> bool" where
  "is_digit c = (c \<in> set ''0123456789'')"

definition is_alpha :: "char \<Rightarrow> bool" where
  "is_alpha c = (c \<in> set ''abcdefghijklmnopqrstuvwxyzABCDEFGHIJKLMNOPQRSTUVWXYZ'')"

text \<open>
  \<open>str.isspace\<close>: tab, LF, VT, FF, CR, the separators 0x1C..0x1F, space, the next-line
  control 0x85 and the no-break space 0xA0.
\<close>

definition is_space :: "char \<Rightarrow> bool" where
  "is_space c = (c \<in> set [CHR 0x09, CHR 0x0A, CHR 0x0B, CHR 0x0C, CHR 0x0D,
                            CHR 0x1C, CHR 0x1D, CHR 0x1E, CHR 0x1F, CHR '' '',
                            CHR 0x85, CHR 0xA0])"

text \<open>
  \<open>str.isdigit\<close> of one character: the decimal digits and the superscript digits two, three
  and one (0xB2, 0xB3, 0xB9).
\<close>

definition is_digit_char :: "char \<Rightarrow> bool" where
  "is_digit_char c = (is_digit c \<or> c \<in> set [CHR 0xB2, CHR 0xB3, CHR 0xB9])"

text \<open>
  \<open>str.lower\<close>: the capital letters A..Z and 0xC0..0xDE (without the multiplication sign
  0xD7) have a small letter, 32 code points further; every other character stays.
\<close>

definition capital_letters :: string where
  "capital_letters =
     ''ABCDEFGHIJKLMNOPQRSTUVWXYZ'' @
     [CHR 0xC0, CHR 0xC1, CHR 0xC2, CHR 0xC3, CHR 0xC4, CHR 0xC5, CHR 0xC6, CHR 0xC7,
      CHR 0xC8, CHR 0xC9, CHR 0xCA, CHR 0xCB, CHR 0xCC, CHR 0xCD, CHR 0xCE, CHR 0xCF,
      CHR 0xD0, CHR 0xD1, CHR 0xD2, CHR 0xD3, CHR 0xD4, CHR 0xD5, CHR 0xD6, CHR 0xD8,
      CHR 0xD9, CHR 0xDA, CHR 0xDB, CHR 0xDC, CHR 0xDD, CHR 0xDE]"

definition small_letters :: string where
  "small_letters =
     ''abcdefghijklmnopqrstuvwxyz'' @
     [CHR 0xE0, CHR 0xE1, CHR 0xE2, CHR 0xE3, CHR 0xE4, CHR 0xE5, CHR 0xE6, CHR 0xE7,
      CHR 0xE8, CHR 0xE9, CHR 0xEA, CHR 0xEB, CHR 0xEC, CHR 0xED, CHR 0xEE, CHR 0xEF,
      CHR 0xF0, CHR 0xF1, CHR 0xF2, CHR 0xF3, CHR 0xF4, CHR 0xF5, CHR 0xF6, CHR 0xF8,
      CHR 0xF9, CHR 0xFA, CHR 0xFB, CHR 0xFC, CHR 0xFD, CHR 0xFE]"

definition lower_char :: "char \<Rightarrow> char" where
  "lower_char c =
     (case map_of (zip capital_letters small_letters) c of
        Some l \<Rightarrow> l
      | None \<Rightarrow> c)"

text \<open>
  The capital of an ASCII letter, for the case-insensitive match of the month
  abbreviations.
\<close>

definition upper_char :: "char \<Rightarrow> char" where
  "upper_char c =
     (case map_of (zip ''abcdefghijklmnopqrstuvwxyz'' ''ABCDEFGHIJKLMNOPQRSTUVWXYZ'') c of
        Some u \<Rightarrow> u
      | None \<Rightarrow> c)"

definition lower :: "string \<Rightarrow> string" where
  "lower s = map lower_char s"

definition lstrip :: "string \<Rightarrow> string" where
  "lstrip s = dropWhile is_space s"

definition rstrip :: "string \<Rightarrow> string" where
  "rstrip s = rev (dropWhile is_space (rev s))"

definition strip :: "string \<Rightarrow> string" where
  "strip s = rstrip (lstrip s)"

text \<open>\<open>s.startswith(k)\<close> and the substring test \<open>k in s\<close>.\<close>

fun startswith :: "string \<Rightarrow> string \<Rightarrow> bool" where
  "startswith [] s = True"
| "startswith (k # ks) [] = False"
| "startswith (k # ks) (c # cs) = (k = c \<and> startswith ks cs)"

fun contains :: "string \<Rightarrow> string \<Rightarrow> bool" where
  "contains k [] = (k = [])"
| "contains k (c # cs) = (startswith k (c # cs) \<or> contains k cs)"

text \<open>\<open>s.isdigit()\<close>: non-empty and every character a digit for \<open>str.isdigit\<close>.\<close>

definition isdigit :: "string \<Rightarrow> bool" where
  "isdigit s = (s \<noteq> [] \<and> list_all is_digit_char s)"

section \<open>Tables\<close>

text \<open>
  A cell of a table read by \<open>pd.read_csv\<close> is a text value or the missing value NaN
  (numeric columns are outside the model). A table has its column names in order and its
  rows in order; a row gives the cell of every column name, NaN where the table has no
  such column (what \<open>pd.concat\<close> fills in).
\<close>

datatype cell = NaN | Str string

type_synonym row = "string \<Rightarrow> cell"

record dataframe =
  columns :: "string list"
  rows :: "row list"

text \<open>\<open>str(v)\<close>, \<open>pd.isna(v)\<close> and the truth value of a cell.\<close>

fun str :: "cell \<Rightarrow> string" where
  "str NaN = ''nan''"
| "str (Str s) = s"

fun isna :: "cell \<Rightarrow> bool" where
  "isna NaN = True"
| "isna (Str s) = False"

fun truthy :: "cell \<Rightarrow> bool" where
  "truthy NaN = True"
| "truthy (Str s) = (s \<noteq> [])"

text \<open>\<open>df[c] = v\<close> (a new column goes last) and \<open>df[c] = df[c].apply(f)\<close>.\<close>

definition set_column :: "dataframe \<Rightarrow> string \<Rightarrow> cell \<Rightarrow> dataframe" where
  "set_column df c v =
     df\<lparr>columns := (if c \<in> set (columns df) then columns df else columns df @ [c]),
        rows := map (\<lambda>r. r(c := v)) (rows df)\<rparr>"

definition apply_column :: "dataframe \<Rightarrow> string \<Rightarrow> (cell \<Rightarrow> cell) \<Rightarrow> dataframe" where
  "apply_column df c f = df\<lparr>rows := map (\<lambda>r. r(c := f (r c))) (rows df)\<rparr>"

section \<open>Watchlist resolution (main.py)\<close>

subsection \<open>\<open>extract_eu_watchlist_from_number\<close>\<close>

definition extract_eu_watchlist_from_number :: "string \<Rightarrow> string" where
  "extract_eu_watchlist_from_number pdf_number =
     (if pdf_number = [] \<or> length pdf_number < 8 then ''EU''
      else if isdigit pdf_number \<and> length pdf_number \<ge> 8 then
        (let year = take 4 pdf_number;
             number = dropWhile (\<lambda>c. c = CHR ''0'') (drop 4 pdf_number)
         in if number \<noteq> [] then year @ ''/'' @ number else ''EU'')
      else ''EU'')"

subsection \<open>\<open>update_watchlist_column\<close>\<close>

text \<open>
  \<open>re.search(r'sanctions_from_(\d+)_', filename)\<close>, returning group 1. At a start position
  the greedy \<open>\d+\<close> takes the whole digit run; a shorter run is followed by a digit, never
  by an underscore, so backtracking cannot succeed where the whole run fails.
\<close>

definition match_sanctions_from :: "string \<Rightarrow> string option" where
  "match_sanctions_from s =
     (if startswith ''sanctions_from_'' s then
        (let rest = drop (length ''sanctions_from_'') s;
             ds = takeWhile is_digit rest;
             after = dropWhile is_digit rest
         in if ds \<noteq> [] \<and> startswith ''_'' after then Some ds else None)
      else None)"

fun search_sanctions_from :: "string \<Rightarrow> string option" where
  "search_sanctions_from [] = None"
| "search_sanctions_from (c # cs) =
     (case match_sanctions_from (c # cs) of
        Some ds \<Rightarrow> Some ds
      | None \<Rightarrow> search_sanctions_from cs)"

text \<open>
  The value is resolved once per table, from the first row's \<open>Source\<close> and \<open>Watchlist\<close>
  cells and from the file name, and then assigned to the whole column. The empty string
  is the source's "not yet resolved".
\<close>

definition resolve_watchlist :: "dataframe \<Rightarrow> string \<Rightarrow> string" where
  "resolve_watchlist df filename =
     (let w0 = '''';
          w1 = (if ''Source'' \<in> set (columns df) then
                  (let first_source = (if rows df \<noteq> [] then lower (str (hd (rows df) ''Source'')) else '''')
                   in if contains ''un'' first_source \<or> contains ''security council'' first_source
                      then ''UN'' else w0)
                else w0);
          w2 = (if w1 = [] \<and> ''Watchlist'' \<in> set (columns df) then
                  (let first_watchlist = (if rows df \<noteq> [] then lower (str (hd (rows df) ''Watchlist'')) else '''')
                   in if contains ''ofac'' first_watchlist \<or> contains ''specially designated'' first_watchlist
                      then ''OFAC''
                      else if first_watchlist \<noteq> [] \<and> first_watchlist \<noteq> ''nan''
                      then str (hd (rows df) ''Watchlist'')
                      else w1)
                else w1);
          w3 = (if w2 = [] \<and> contains ''sanctions_from_'' filename then
                  (case search_sanctions_from filename of
                     Some pdf_number \<Rightarrow> extract_eu_watchlist_from_number pdf_number
                   | None \<Rightarrow> ''EU'')
                else w2)
      in if w3 = [] then ''Unknown'' else w3)"

definition update_watchlist_column :: "dataframe \<Rightarrow> string \<Rightarrow> dataframe" where
  "update_watchlist_column df0 filename =
     (let df = (if ''Watchlist'' \<notin> set (columns df0) then set_column df0 ''Watchlist'' (Str '''') else df0)
      in set_column df ''Watchlist'' (Str (resolve_watchlist df filename)))"

subsection \<open>\<open>standardize_watchlist\<close>\<close>

text \<open>\<open>re.search(r'\d{4}/\d+', s)\<close>: four digits, a slash and a digit somewhere in \<open>s\<close>.\<close>

fun eu_pattern_at :: "string \<Rightarrow> bool" where
  "eu_pattern_at (a # b # c # d # s # e # rest) =
     (is_digit a \<and> is_digit b \<and> is_digit c \<and> is_digit d \<and> s = CHR ''/'' \<and> is_digit e)"
| "eu_pattern_at _ = False"

fun search_eu_pattern :: "string \<Rightarrow> bool" where
  "search_eu_pattern [] = False"
| "search_eu_pattern (c # cs) = (eu_pattern_at (c # cs) \<or> search_eu_pattern cs)"

definition clean_watchlist_value :: "cell \<Rightarrow> string" where
  "clean_watchlist_value v =
     (if isna v \<or> \<not> truthy v then ''Unknown''
      else
        (let value_str = strip (str v) in
         if list_ex (\<lambda>keyword. contains keyword (lower value_str))
              [''un'', ''united nations'', ''security council''] then ''UN''
         else if list_ex (\<lambda>keyword. contains keyword (lower value_str))
              [''ofac'', ''specially designated'', ''treasury''] then ''OFAC''
         else if search_eu_pattern value_str then value_str
         else if contains ''eu'' (lower value_str) then ''EU''
         else value_str))"

definition standardize_watchlist :: "dataframe \<Rightarrow> dataframe" where
  "standardize_watchlist df =
     (if ''Watchlist'' \<notin> set (columns df) then df
      else apply_column df ''Watchlist'' (\<lambda>v. Str (clean_watchlist_value v)))"

section \<open>Dates: \<open>datetime.strptime\<close> and \<open>strftime\<close>\<close>

record date =
  year :: nat
  month :: nat
  day :: nat

definition is_leap :: "nat \<Rightarrow> bool" where
  "is_leap y = (y mod 4 = 0 \<and> (y mod 100 \<noteq> 0 \<or> y mod 400 = 0))"

definition days_in_month :: "nat \<Rightarrow> nat \<Rightarrow> nat" where
  "days_in_month y m =
     (if m = 2 then (if is_leap y then 29 else 28)
      else if m \<in> set [4, 6, 9, 11] then 30 else 31)"

text \<open>
  The constructor \<open>datetime.date(y, m, d)\<close> raises ValueError (here \<open>None\<close>) outside
  years 1..9999, months 1..12 and the days of the month.
\<close>

definition make_date :: "nat \<Rightarrow> nat \<Rightarrow> nat \<Rightarrow> date option" where
  "make_date y m d =
     (if 1 \<le> y \<and> y \<le> 9999 \<and> 1 \<le> m \<and> m \<le> 12 \<and> 1 \<le> d \<and> d \<le> days_in_month y m
      then Some \<lparr>year = y, month = m, day = d\<rparr> else None)"

text \<open>Decimal numerals: \<open>int(s)\<close> on digits (blanks skipped) and zero-padded printing.\<close>

definition digit_val :: "char \<Rightarrow> nat" where
  "digit_val c =
     (case map_of (zip ''0123456789'' [0, 1, 2, 3, 4, 5, 6, 7, 8, 9]) c of
        Some n \<Rightarrow> n
      | None \<Rightarrow> 0)"

definition int_of_digits :: "string \<Rightarrow> nat" where
  "int_of_digits s = foldl (\<lambda>acc c. 10 * acc + digit_val c) 0 (filter is_digit s)"

definition digit_char :: "nat \<Rightarrow> char" where
  "digit_char n =
     (case map_of (zip [0, 1, 2, 3, 4, 5, 6, 7, 8, 9] ''0123456789'') n of
        Some c \<Rightarrow> c
      | None \<Rightarrow> CHR ''0'')"

fun str_nat :: "nat \<Rightarrow> string" where
  "str_nat n = (if n < 10 then [digit_char n] else str_nat (n div 10) @ [digit_char (n mod 10)])"

declare str_nat.simps [simp del]

definition zfill :: "nat \<Rightarrow> string \<Rightarrow> string" where
  "zfill k s = replicate (k - length s) CHR ''0'' @ s"

definition month_abbr :: "string list" where
  "month_abbr = [''Jan'', ''Feb'', ''Mar'', ''Apr'', ''May'', ''Jun'',
                 ''Jul'', ''Aug'', ''Sep'', ''Oct'', ''Nov'', ''Dec'']"

text \<open>
  A format string is read into directives. \<open>%d\<close>, \<open>%m\<close>, \<open>%Y\<close> and \<open>%b\<close> are the
  directives the repository uses; a run of blanks in a format matches \<open>\s+\<close> when parsing
  and is printed as it stands; any other character is a literal.
\<close>

datatype directive = Dir_d | Dir_m | Dir_Y | Dir_b | Unsupported char | Blanks string | Lit char

fun parse_format :: "string \<Rightarrow> directive list" where
  "parse_format [] = []"
| "parse_format [c] =
     (if c = CHR ''%'' then [Unsupported c]
      else if is_space c then [Blanks [c]] else [Lit c])"
| "parse_format (c # x # rest) =
     (if c = CHR ''%'' then
        (if x = CHR ''d'' then Dir_d else if x = CHR ''m'' then Dir_m
         else if x = CHR ''Y'' then Dir_Y else if x = CHR ''b'' then Dir_b
         else Unsupported x) # parse_format rest
      else if is_space c then
        (case parse_format (x # rest) of
           Blanks w # ds \<Rightarrow> Blanks (c # w) # ds
         | ds \<Rightarrow> Blanks [c] # ds)
      else Lit c # parse_format (x # rest))"

text \<open>
  \<open>strptime\<close> compiles the format into a regular expression (case-insensitive) and takes
  the first match the backtracking engine finds. Each directive is a list of alternatives
  in the engine's order, each alternative a sequence of character classes:
  \<open>%d\<close> is \<open>3[0-1]|[1-2]\d|0[1-9]|[1-9]| [1-9]\<close>, \<open>%m\<close> is \<open>1[0-2]|0[1-9]|[1-9]\<close>,
  \<open>%Y\<close> is \<open>\d\d\d\d\<close> and \<open>%b\<close> the twelve month abbreviations.
\<close>

definition both_cases :: "string \<Rightarrow> string list" where
  "both_cases s = map (\<lambda>c. [lower_char c, upper_char c]) s"

fun directive_alts :: "directive \<Rightarrow> string list list" where
  "directive_alts Dir_d =
     [[''3'', ''01''], [''12'', ''0123456789''], [''0'', ''123456789''], [''123456789''],
      ['' '', ''123456789'']]"
| "directive_alts Dir_m = [[''1'', ''012''], [''0'', ''123456789''], [''123456789'']]"
| "directive_alts Dir_Y = [[''0123456789'', ''0123456789'', ''0123456789'', ''0123456789'']]"
| "directive_alts Dir_b = map both_cases month_abbr"
| "directive_alts _ = []"

fun match_seq :: "string list \<Rightarrow> string \<Rightarrow> (string \<times> string) option" where
  "match_seq [] s = Some ([], s)"
| "match_seq (cls # rest) [] = None"
| "match_seq (cls # rest) (c # cs) =
     (if c \<in> set cls then map_option (\<lambda>(m, r). (c # m, r)) (match_seq rest cs) else None)"

text \<open>
  The ways one directive can match at the start of \<open>s\<close>, as (matched text, remaining text),
  in the order the engine tries them; \<open>\s+\<close> is greedy, longest run first.
\<close>

fun blank_splits :: "string \<Rightarrow> (string \<times> string) list" where
  "blank_splits [] = []"
| "blank_splits (c # cs) =
     (if is_space c then map (\<lambda>(m, r). (c # m, r)) (blank_splits cs) @ [([c], cs)] else [])"

fun match_directive :: "directive \<Rightarrow> string \<Rightarrow> (string \<times> string) list" where
  "match_directive (Lit c) s =
     (case s of [] \<Rightarrow> [] | x # xs \<Rightarrow> if lower_char x = lower_char c then [([x], xs)] else [])"
| "match_directive (Blanks w) s = blank_splits s"
| "match_directive d s = List.map_filter (\<lambda>alt. match_seq alt s) (directive_alts d)"

fun match_pattern :: "directive list \<Rightarrow> string \<Rightarrow> ((directive \<times> string) list \<times> string) list" where
  "match_pattern [] s = [([], s)]"
| "match_pattern (d # ds) s =
     concat (map (\<lambda>(tok, rest). map (\<lambda>(fs, r). ((d, tok) # fs, r)) (match_pattern ds rest))
                 (match_directive d s))"

text \<open>The month number of a matched \<open>%b\<close>: its index among the abbreviations, from 1.\<close>

fun index_of :: "string \<Rightarrow> string list \<Rightarrow> nat" where
  "index_of x [] = 0"
| "index_of x (y # ys) = (if lower x = lower y then 0 else Suc (index_of x ys))"

definition field_value :: "directive \<Rightarrow> (directive \<times> string) list \<Rightarrow> nat \<Rightarrow> nat" where
  "field_value d fs dflt = (case map_of fs d of Some tok \<Rightarrow> int_of_digits tok | None \<Rightarrow> dflt)"

text \<open>
  \<open>datetime.strptime(s, fmt)\<close>; \<open>None\<close> is the ValueError it raises: a directive that is
  not known, no match, text left over after the match, or an impossible date. Fields the
  format does not mention default to 1900-01-01.
\<close>

definition strptime :: "string \<Rightarrow> string \<Rightarrow> date option" where
  "strptime s fmt =
     (let ds = parse_format fmt in
      if list_ex (\<lambda>d. case d of Unsupported x \<Rightarrow> True | _ \<Rightarrow> False) ds then None
      else
        (case match_pattern ds s of
           [] \<Rightarrow> None
         | (fs, rest) # others \<Rightarrow>
             if rest \<noteq> [] then None
             else
               (let y = field_value Dir_Y fs 1900;
                    m = (case map_of fs Dir_b of
                           Some tok \<Rightarrow> Suc (index_of tok month_abbr)
                         | None \<Rightarrow> field_value Dir_m fs 1);
                    d = field_value Dir_d fs 1
                in make_date y m d)))"

text \<open>
  \<open>strftime\<close>: day and month are printed with two digits; the year is printed as the C
  library of Linux prints \<open>%Y\<close>, without padding (other platforms pad years below 1000 to
  four digits).
\<close>

fun render :: "date \<Rightarrow> directive \<Rightarrow> string" where
  "render dt Dir_d = zfill 2 (str_nat (day dt))"
| "render dt Dir_m = zfill 2 (str_nat (month dt))"
| "render dt Dir_Y = str_nat (year dt)"
| "render dt Dir_b = month_abbr ! (month dt - 1)"
| "render dt (Unsupported x) = [CHR ''%'', x]"
| "render dt (Blanks w) = w"
| "render dt (Lit c) = [c]"

definition strftime :: "date \<Rightarrow> string \<Rightarrow> string" where
  "strftime dt fmt = concat (map (render dt) (parse_format fmt))"

section \<open>DOB\_DJ normalisation (main.py)\<close>

text \<open>
  \<open>re.match(r'\d{1,2}\s+[A-Za-z]{3}\s+\d{4}', s)\<close>: one or two digits, blanks, three letters,
  blanks, four digits, at the start of \<open>s\<close>; anything may follow. Each greedy run must be
  taken whole, since what follows it cannot start with a character of the run.
\<close>

definition matches_dd_mmm_yyyy :: "string \<Rightarrow> bool" where
  "matches_dd_mmm_yyyy s =
     (let dd = takeWhile is_digit s; r1 = dropWhile is_digit s;
          w1 = takeWhile is_space r1; r2 = dropWhile is_space r1;
          mmm = take 3 r2; r3 = drop 3 r2;
          w2 = takeWhile is_space r3; r4 = dropWhile is_space r3;
          yyyy = take 4 r4
      in (length dd = 1 \<or> length dd = 2) \<and> w1 \<noteq> [] \<and>
         length mmm = 3 \<and> list_all is_alpha mmm \<and> w2 \<noteq> [] \<and>
         length yyyy = 4 \<and> list_all is_digit yyyy)"

definition date_formats :: "string list" where
  "date_formats =
     [''%d/%m/%Y'', ''%d-%m-%Y'', ''%d.%m.%Y'', ''%Y-%m-%d'', ''%Y/%m/%d'', ''%m/%d/%Y'',
      ''%d %m %Y'']"

text \<open>The loop over the formats: the first that parses is printed, else the text stays.\<close>

fun try_formats :: "string \<Rightarrow> string list \<Rightarrow> string" where
  "try_formats date_str [] = date_str"
| "try_formats date_str (fmt # fmts) =
     (case strptime date_str fmt of
        Some date_obj \<Rightarrow> strftime date_obj ''%d %b %Y''
      | None \<Rightarrow> try_formats date_str fmts)"

definition convert_date_format :: "cell \<Rightarrow> string" where
  "convert_date_format v =
     (if isna v \<or> \<not> truthy v \<or> strip (str v) = [] then []
      else
        (let date_str = strip (str v) in
         if matches_dd_mmm_yyyy date_str then date_str
         else try_formats date_str date_formats))"

definition standardize_dob_format :: "dataframe \<Rightarrow> dataframe" where
  "standardize_dob_format df =
     (if ''DOB_DJ'' \<notin> set (columns df) then df
      else apply_column df ''DOB_DJ'' (\<lambda>v. Str (convert_date_format v)))"

section \<open>Consolidation (main.py, \<open>step6_consolidate_data\<close>)\<close>

text \<open>
  \<open>pd.concat(dfs, ignore_index=True)\<close>: the columns are the union of the tables' columns in
  order of first appearance, the rows follow in input order, and a row has NaN in the
  columns its table lacks.
\<close>

fun drop_duplicates_from :: "'k list \<Rightarrow> ('a \<Rightarrow> 'k) \<Rightarrow> 'a list \<Rightarrow> 'a list" where
  "drop_duplicates_from seen key [] = []"
| "drop_duplicates_from seen key (x # xs) =
     (if key x \<in> set seen then drop_duplicates_from seen key xs
      else x # drop_duplicates_from (key x # seen) key xs)"

text \<open>\<open>drop_duplicates(subset=[k], keep='first')\<close> on the values \<open>key\<close> reads.\<close>

definition drop_duplicates :: "('a \<Rightarrow> 'k) \<Rightarrow> 'a list \<Rightarrow> 'a list" where
  "drop_duplicates key xs = drop_duplicates_from [] key xs"

definition cells :: "dataframe \<Rightarrow> row \<Rightarrow> row" where
  "cells df r = (\<lambda>c. if c \<in> set (columns df) then r c else NaN)"

definition concat_frames :: "dataframe list \<Rightarrow> dataframe" where
  "concat_frames dfs =
     \<lparr>columns = drop_duplicates (\<lambda>c. c) (concat (map columns dfs)),
      rows = concat (map (\<lambda>df. map (cells df) (rows df)) dfs)\<rparr>"

text \<open>
  \<open>sort_values('Name')\<close>: text values ascending in the order of Python strings, missing
  names last. The names are distinct when it runs, so the result does not depend on the
  sorting algorithm.
\<close>

fun name_key :: "cell \<Rightarrow> nat \<times> string" where
  "name_key (Str s) = (0, s)"
| "name_key NaN = (1, [])"

definition sort_values :: "string \<Rightarrow> dataframe \<Rightarrow> dataframe" where
  "sort_values c df = df\<lparr>rows := sort_key (\<lambda>r. name_key (r c)) (rows df)\<rparr>"

record summary =
  total_records :: nat
  duplicate_removed :: nat
  pdf_records :: nat
  ofac_records :: nat
  un_records :: nat
  other_records :: nat

text \<open>The category a file's records are counted under, by its name.\<close>

datatype category = Cat_pdf | Cat_ofac | Cat_un | Cat_other

definition file_category :: "string \<Rightarrow> category" where
  "file_category file =
     (if contains ''sanctions_from_'' file then Cat_pdf
      else if contains ''ofac'' (lower file) then Cat_ofac
      else if contains ''un'' (lower file) then Cat_un
      else Cat_other)"

definition count_records :: "category \<Rightarrow> (string \<times> dataframe) list \<Rightarrow> nat" where
  "count_records k loaded =
     sum_list (map (\<lambda>(file, df). length (rows df)) (filter (\<lambda>(file, df). file_category file = k) loaded))"

text \<open>
  The files found, each with the table read from it (\<open>None\<close> when reading it raises, which
  skips the file). A file with no rows is skipped. The result is \<open>None\<close> where the source
  returns False: no file, no table with rows, or no \<open>Name\<close> column to deduplicate on
  (a KeyError, caught at the end of the function). Writing the output file and the value
  distributions of the summary are not modelled.
\<close>

definition load_tables :: "(string \<times> dataframe option) list \<Rightarrow> (string \<times> dataframe) list" where
  "load_tables files =
     List.map_filter
       (\<lambda>(file, r). case r of
            None \<Rightarrow> None
          | Some df \<Rightarrow> if length (rows df) > 0 then Some (file, update_watchlist_column df file) else None)
       files"

definition step6_consolidate_data :: "(string \<times> dataframe option) list \<Rightarrow> (dataframe \<times> summary) option" where
  "step6_consolidate_data all_csv_files =
     (if all_csv_files = [] then None
      else
        (let all_dataframes = load_tables all_csv_files in
         if all_dataframes = [] then None
         else
           (let final_df = concat_frames (map snd all_dataframes);
                final_df = standardize_dob_format final_df;
                final_df = standardize_watchlist final_df
            in if ''Name'' \<notin> set (columns final_df) then None
               else
                 (let original_count = length (rows final_df);
                      deduped = final_df\<lparr>rows := drop_duplicates (\<lambda>r. r ''Name'') (rows final_df)\<rparr>;
                      duplicate_count = original_count - length (rows deduped);
                      sorted_df = sort_values ''Name'' deduped
                  in Some (sorted_df,
                       \<lparr>total_records = length (rows sorted_df),
                        duplicate_removed = duplicate_count,
                        pdf_records = count_records Cat_pdf all_dataframes,
                        ofac_records = count_records Cat_ofac all_dataframes,
                        un_records = count_records Cat_un all_dataframes,
                        other_records = count_records Cat_other all_dataframes\<rparr>)))))"

text \<open>A row given by its cells, for writing tables down.\<close>

definition mk_row :: "(string \<times> cell) list \<Rightarrow> row" where
  "mk_row kvs = (\<lambda>c. case map_of kvs c of Some v \<Rightarrow> v | None \<Rightarrow> NaN)"

section \<open>XML elements (\<open>xml.etree.ElementTree\<close>)\<close>

text \<open>
  A parsed element: its tag (with the namespace in braces, as ElementTree writes it), its
  attributes, its text (\<open>None\<close> when it has none) and its children in document order.
\<close>

datatype element =
  Element (tag: string) (attrib: "(string \<times> string) list") (elem_text: "string option")
          (children: "element list")

text \<open>\<open>e.get(key)\<close> and \<open>e.get(key, default)\<close>.\<close>

definition get_attr :: "element \<Rightarrow> string \<Rightarrow> string option" where
  "get_attr e key = map_of (attrib e) key"

definition get_attr_default :: "element \<Rightarrow> string \<Rightarrow> string \<Rightarrow> string" where
  "get_attr_default e key dflt = (case map_of (attrib e) key of Some v \<Rightarrow> v | None \<Rightarrow> dflt)"

text \<open>How an f-string prints an attribute that may be \<open>None\<close>.\<close>

fun format_opt :: "string option \<Rightarrow> string" where
  "format_opt None = ''None''"
| "format_opt (Some s) = s"

text \<open>The truth value of \<open>e.text\<close>, and the text where it is true.\<close>

fun has_text :: "element \<Rightarrow> bool" where
  "has_text e = (case elem_text e of Some s \<Rightarrow> s \<noteq> [] | None \<Rightarrow> False)"

fun text_of :: "element \<Rightarrow> string" where
  "text_of e = (case elem_text e of Some s \<Rightarrow> s | None \<Rightarrow> [])"

text \<open>
  The paths the extractors use: \<open>findall('t')\<close> (children), \<open>findall('.//t')\<close> (all
  elements below, in document order), \<open>findall('a/b')\<close> and \<open>findall('.//a/b')\<close>;
  \<open>find\<close> is the first element \<open>findall\<close> gives, or \<open>None\<close>.
\<close>

fun descendants :: "element \<Rightarrow> element list" where
  "descendants (Element t a x cs) = concat (map (\<lambda>c. c # descendants c) cs)"

definition findall_child :: "string \<Rightarrow> element \<Rightarrow> element list" where
  "findall_child t e = filter (\<lambda>c. tag c = t) (children e)"

definition findall_desc :: "string \<Rightarrow> element \<Rightarrow> element list" where
  "findall_desc t e = filter (\<lambda>c. tag c = t) (descendants e)"

definition findall_child2 :: "string \<Rightarrow> string \<Rightarrow> element \<Rightarrow> element list" where
  "findall_child2 a b e = concat (map (findall_child b) (findall_child a e))"

definition findall_desc2 :: "string \<Rightarrow> string \<Rightarrow> element \<Rightarrow> element list" where
  "findall_desc2 a b e = concat (map (findall_child b) (findall_desc a e))"

fun first_of :: "'a list \<Rightarrow> 'a option" where
  "first_of [] = None"
| "first_of (x # xs) = Some x"

definition find_child :: "string \<Rightarrow> element \<Rightarrow> element option" where
  "find_child t e = first_of (findall_child t e)"

definition find_desc :: "string \<Rightarrow> element \<Rightarrow> element option" where
  "find_desc t e = first_of (findall_desc t e)"

definition find_desc2 :: "string \<Rightarrow> string \<Rightarrow> element \<Rightarrow> element option" where
  "find_desc2 a b e = first_of (findall_desc2 a b e)"

text \<open>\<open>sep.join(xs)\<close>.\<close>

fun join :: "string \<Rightarrow> string list \<Rightarrow> string" where
  "join sep [] = []"
| "join sep [x] = x"
| "join sep (x # y # ys) = x @ sep @ join sep (y # ys)"

section \<open>OFAC delta extractor (ofac\_extractor.py)\<close>

text \<open>The prefix \<open>ns:\<close> of a path, resolved to the namespace of the delta file.\<close>

definition ns :: "string \<Rightarrow> string" where
  "ns t = ''{https://www.treasury.gov/ofac/DeltaFile/1.0}'' @ t"

definition doc_type_map :: "(string \<times> string) list" where
  "doc_type_map =
     [(''1571'', ''Passport''), (''1584'', ''National ID''),
      (''1608'', ''Identification Number''), (''1626'', ''Vessel Registration''),
      (''1632'', ''Residency Number''), (''91264'', ''MMSI''),
      (''91761'', ''Registration Number''), (''1575'', ''Driver License''),
      (''1576'', ''Tax ID''), (''1577'', ''Social Security Number''),
      (''1578'', ''Business Registration''), (''1579'', ''Military ID'')]"

text \<open>\<open>m.get(ref_id, default)\<close>; the key \<open>None\<close> is in neither dictionary.\<close>

definition get_document_type_name :: "string option \<Rightarrow> string" where
  "get_document_type_name ref_id =
     (case ref_id of
        None \<Rightarrow> ''Doc Type '' @ format_opt ref_id
      | Some r \<Rightarrow>
          (case map_of doc_type_map r of
             Some name \<Rightarrow> name
           | None \<Rightarrow> ''Doc Type '' @ format_opt ref_id))"

definition program_map :: "(string \<times> string) list" where
  "program_map =
     [(''91901'', ''IRAN-EO13902''), (''91902'', ''IRAN-EO13902''),
      (''1556'', ''UKRAINE-EO13660''), (''1557'', ''UKRAINE-EO13661''),
      (''1558'', ''UKRAINE-EO13662''), (''1559'', ''UKRAINE-EO13685''),
      (''1560'', ''RUSSIA-EO14024''), (''1550'', ''SDN''), (''1551'', ''CRIM''),
      (''1552'', ''SYRIA''), (''1553'', ''CUBA''), (''1554'', ''NORTH KOREA''),
      (''1555'', ''NICARAGUA'')]"

definition get_sanctions_program_name :: "string option \<Rightarrow> string" where
  "get_sanctions_program_name ref_id =
     (case ref_id of
        None \<Rightarrow> ''Program '' @ format_opt ref_id
      | Some r \<Rightarrow>
          (case map_of program_map r of
             Some name \<Rightarrow> name
           | None \<Rightarrow> ''Program '' @ format_opt ref_id))"

text \<open>
  The dictionary \<open>data\<close> of one entity: a value for each of the 17 keys, all empty at the
  start. Keys outside the 17 are never read or written.
\<close>

type_synonym ofac_data = "string \<Rightarrow> string"

definition empty_data :: ofac_data where
  "empty_data = (\<lambda>k. [])"

definition ofac_columns :: "string list" where
  "ofac_columns =
     [''Name'', ''Aliases'', ''Type'', ''Date of Birth'', ''Place of Birth'', ''Gender'',
      ''Nationality'', ''COUNTRY'', ''ID_1'', ''ID_Type1'', ''ID_2'', ''ID_Type2'',
      ''Date of listing'', ''Watchlist'', ''Other info'', ''DOB_DJ'', ''DOB_YEAR'']"

subsection \<open>Entity type\<close>

definition extract_entity_type :: "element \<Rightarrow> ofac_data \<Rightarrow> ofac_data" where
  "extract_entity_type entity data =
     (case find_desc2 (ns ''generalInfo'') (ns ''entityType'') entity of
        None \<Rightarrow> data
      | Some entity_type_elem \<Rightarrow>
          (let ref_id = get_attr entity_type_elem ''refId'' in
           if ref_id = Some ''600'' then data(''Type'' := ''Individual'')
           else if ref_id = Some ''601'' then data(''Type'' := ''Entity'')
           else if ref_id = Some ''602'' then data(''Type'' := ''Vessel'')
           else data(''Type'' := ''Type '' @ format_opt ref_id)))"

subsection \<open>Primary name and aliases\<close>

text \<open>
  One step of the inner loop, for a translation of a name with its \<open>isPrimary\<close> child:
  the state is \<open>data\<close> and the list of aliases.
\<close>

definition name_step :: "element option \<Rightarrow> element \<Rightarrow> ofac_data \<times> string list \<Rightarrow> ofac_data \<times> string list" where
  "name_step is_primary translation st =
     (case find_child (ns ''formattedFullName'') translation of
        None \<Rightarrow> st
      | Some formatted_name \<Rightarrow>
          if has_text formatted_name then
            (if (case is_primary of Some p \<Rightarrow> elem_text p = Some ''true'' | None \<Rightarrow> False) then
               (if fst st ''Name'' = [] then ((fst st)(''Name'' := text_of formatted_name), snd st)
                else st)
             else (fst st, snd st @ [text_of formatted_name]))
          else st)"

definition extract_names :: "element \<Rightarrow> ofac_data \<Rightarrow> ofac_data" where
  "extract_names entity data =
     (let names = findall_desc2 (ns ''names'') (ns ''name'') entity;
          (data', aliases_list) =
             foldl (\<lambda>st name.
                      foldl (\<lambda>st' translation. name_step (find_child (ns ''isPrimary'') name) translation st')
                            st (findall_child2 (ns ''translations'') (ns ''translation'') name))
                   (data, []) names
      in data'(''Aliases'' := (if aliases_list \<noteq> [] then join ''; '' aliases_list else [])))"

subsection \<open>Features\<close>

text \<open>
  The word characters of \<open>\w\<close> and \<open>\b\<close>: the ASCII letters and digits, the underscore, and
  the letters and numeric characters of Latin-1 (0xAA, 0xB2, 0xB3, 0xB5, 0xB9, 0xBA,
  0xBC..0xBE, and 0xC0..0xFF without the multiplication and division signs 0xD7, 0xF7).
\<close>

definition latin1_word_chars :: string where
  "latin1_word_chars =
     [CHR 0xAA, CHR 0xB2, CHR 0xB3, CHR 0xB5, CHR 0xB9, CHR 0xBA, CHR 0xBC, CHR 0xBD,
      CHR 0xBE, CHR 0xC0, CHR 0xC1, CHR 0xC2, CHR 0xC3, CHR 0xC4, CHR 0xC5, CHR 0xC6,
      CHR 0xC7, CHR 0xC8, CHR 0xC9, CHR 0xCA, CHR 0xCB, CHR 0xCC, CHR 0xCD, CHR 0xCE,
      CHR 0xCF, CHR 0xD0, CHR 0xD1, CHR 0xD2, CHR 0xD3, CHR 0xD4, CHR 0xD5, CHR 0xD6,
      CHR 0xD8, CHR 0xD9, CHR 0xDA, CHR 0xDB, CHR 0xDC, CHR 0xDD, CHR 0xDE, CHR 0xDF,
      CHR 0xE0, CHR 0xE1, CHR 0xE2, CHR 0xE3, CHR 0xE4, CHR 0xE5, CHR 0xE6, CHR 0xE7,
      CHR 0xE8, CHR 0xE9, CHR 0xEA, CHR 0xEB, CHR 0xEC, CHR 0xED, CHR 0xEE, CHR 0xEF,
      CHR 0xF0, CHR 0xF1, CHR 0xF2, CHR 0xF3, CHR 0xF4, CHR 0xF5, CHR 0xF6, CHR 0xF8,
      CHR 0xF9, CHR 0xFA, CHR 0xFB, CHR 0xFC, CHR 0xFD, CHR 0xFE, CHR 0xFF]"

definition is_word :: "char \<Rightarrow> bool" where
  "is_word c = (is_alpha c \<or> is_digit c \<or> c = CHR ''_'' \<or> c \<in> set latin1_word_chars)"

text \<open>
  \<open>re.search(r'\b(\d{4})\b', s)\<close>: the first run of exactly four digits that has no word
  character next to it on either side.
\<close>

definition year_at :: "string \<Rightarrow> bool" where
  "year_at s =
     (length (take 4 s) = 4 \<and> list_all is_digit (take 4 s) \<and>
      (case drop 4 s of [] \<Rightarrow> True | x # xs \<Rightarrow> \<not> is_word x))"

fun search_year_from :: "bool \<Rightarrow> string \<Rightarrow> string option" where
  "search_year_from after_word [] = None"
| "search_year_from after_word (c # cs) =
     (if \<not> after_word \<and> year_at (c # cs) then Some (take 4 (c # cs))
      else search_year_from (is_word c) cs)"

definition search_year :: "string \<Rightarrow> string option" where
  "search_year s = search_year_from False s"

text \<open>The birthdate feature (feature type 8), with the value \<open>v\<close> of the feature.\<close>

definition birthdate :: "string \<Rightarrow> ofac_data \<Rightarrow> ofac_data" where
  "birthdate v data0 =
     (let data = data0(''Date of Birth'' := v) in
      case strptime v ''%d %b %Y'' of
        Some date_obj \<Rightarrow>
          data(''DOB_DJ'' := strftime date_obj ''%d/%m/%Y'', ''DOB_YEAR'' := str_nat (year date_obj))
      | None \<Rightarrow>
          (case strptime v ''%Y-%m-%d'' of
             Some date_obj \<Rightarrow>
               data(''DOB_DJ'' := strftime date_obj ''%d/%m/%Y'',
                    ''DOB_YEAR'' := str_nat (year date_obj))
           | None \<Rightarrow>
               (case search_year v of
                  Some year_match \<Rightarrow> data(''DOB_YEAR'' := year_match)
                | None \<Rightarrow> data)))"

text \<open>
  One step of the loop over the features; the state is \<open>data\<close>, the nationalities so far
  and the vessel flag.
\<close>

definition feature_step :: "element \<Rightarrow> ofac_data \<times> string list \<times> string \<Rightarrow> ofac_data \<times> string list \<times> string" where
  "feature_step feature st =
     (case find_child (ns ''type'') feature of
        None \<Rightarrow> st
      | Some feature_type \<Rightarrow>
          (let feature_type_id = get_attr feature_type ''featureTypeId'' in
           case find_child (ns ''value'') feature of
             None \<Rightarrow> st
           | Some value_elem \<Rightarrow>
               if has_text value_elem then
                 (let v = text_of value_elem;
                      (data, nationalities, vessel_flag) = st
                  in if feature_type_id = Some ''8'' then (birthdate v data, nationalities, vessel_flag)
                     else if feature_type_id = Some ''9'' then
                       (data(''Place of Birth'' := v), nationalities, vessel_flag)
                     else if feature_type_id = Some ''224'' then
                       (data(''Gender'' := (if lower v \<in> set [''male'', ''female''] then lower v else v)),
                        nationalities, vessel_flag)
                     else if feature_type_id = Some ''10'' then (data, nationalities @ [v], vessel_flag)
                     else if feature_type_id = Some ''3'' then (data, nationalities, v)
                     else st)
               else st))"

subsection \<open>Country\<close>

definition extract_country :: "element \<Rightarrow> string \<Rightarrow> ofac_data \<Rightarrow> ofac_data" where
  "extract_country entity vessel_flag data =
     (let countries =
            map text_of (filter has_text
              (List.map_filter (find_child (ns ''country''))
                 (findall_desc2 (ns ''addresses'') (ns ''address'') entity)))
      in if data ''Type'' = ''Vessel'' \<and> vessel_flag \<noteq> [] then data(''COUNTRY'' := vessel_flag)
         else if data ''Nationality'' \<noteq> [] then
           data(''COUNTRY'' := strip (takeWhile (\<lambda>c. c \<noteq> CHR '';'') (data ''Nationality'')))
         else (case countries of
                 [] \<Rightarrow> data
               | c # cs \<Rightarrow> data(''COUNTRY'' := c)))"

subsection \<open>Identity documents\<close>

text \<open>
  The loop over the identity documents with its counter. A document counts only when it
  has a type element and a document number with text; the loop stops once two have
  counted.
\<close>

definition valid_id_doc :: "element \<Rightarrow> bool" where
  "valid_id_doc doc =
     (case (find_child (ns ''type'') doc, find_child (ns ''documentNumber'') doc) of
        (Some doc_type_elem, Some doc_number_elem) \<Rightarrow> has_text doc_number_elem
      | _ \<Rightarrow> False)"

definition doc_number_of :: "element \<Rightarrow> string" where
  "doc_number_of doc =
     (case find_child (ns ''documentNumber'') doc of Some e \<Rightarrow> text_of e | None \<Rightarrow> [])"

definition doc_type_name_of :: "element \<Rightarrow> string" where
  "doc_type_name_of doc =
     (case find_child (ns ''type'') doc of
        Some e \<Rightarrow> get_document_type_name (get_attr e ''refId'')
      | None \<Rightarrow> [])"

fun id_loop :: "element list \<Rightarrow> nat \<Rightarrow> ofac_data \<Rightarrow> ofac_data" where
  "id_loop [] id_count data = data"
| "id_loop (doc # docs) id_count data =
     (if id_count \<ge> 2 then data
      else if valid_id_doc doc then
        (let doc_number = doc_number_of doc;
             doc_type_name = doc_type_name_of doc;
             data' = (if id_count = 0 then data(''ID_1'' := doc_number, ''ID_Type1'' := doc_type_name)
                      else if id_count = 1 then data(''ID_2'' := doc_number, ''ID_Type2'' := doc_type_name)
                      else data)
         in id_loop docs (id_count + 1) data')
      else id_loop docs id_count data)"

subsection \<open>Sanctions list and programs\<close>

definition extract_sanctions_list :: "element \<Rightarrow> ofac_data \<Rightarrow> ofac_data" where
  "extract_sanctions_list entity data0 =
     (case find_desc2 (ns ''sanctionsLists'') (ns ''sanctionsList'') entity of
        None \<Rightarrow> data0
      | Some sanctions_list \<Rightarrow>
          (let data = data0(''Watchlist'' := ''OFAC - Specially Designated National List'') in
           case get_attr sanctions_list ''datePublished'' of
             None \<Rightarrow> data
           | Some date_published \<Rightarrow>
               if date_published = [] then data
               else
                 (case strptime date_published ''%Y-%m-%d'' of
                    Some date_obj \<Rightarrow> data(''Date of listing'' := strftime date_obj ''%d/%m/%Y'')
                  | None \<Rightarrow> data(''Date of listing'' := date_published))))"

definition extract_programs :: "element \<Rightarrow> ofac_data \<Rightarrow> ofac_data" where
  "extract_programs entity data =
     (let program_names =
            filter (\<lambda>program_name. program_name \<noteq> [])
              (map (\<lambda>program. get_sanctions_program_name (get_attr program ''refId''))
                 (findall_desc2 (ns ''sanctionsPrograms'') (ns ''sanctionsProgram'') entity))
      in data(''Other info'' := (if program_names \<noteq> [] then join ''; '' program_names else [])))"

subsection \<open>\<open>extract_entity_data\<close> and \<open>process_sanctions_data\<close>\<close>

text \<open>The four keys the identity documents are written to.\<close>

definition id_keys :: "string set" where
  "id_keys = {''ID_1'', ''ID_Type1'', ''ID_2'', ''ID_Type2''}"

definition id_docs :: "element \<Rightarrow> element list" where
  "id_docs entity = findall_desc2 (ns ''identityDocuments'') (ns ''identityDocument'') entity"

definition extract_entity_data :: "element \<Rightarrow> ofac_data" where
  "extract_entity_data entity =
     (let data = empty_data;
          action = get_attr_default entity ''action'' []
      in if action \<noteq> ''add'' then data
         else
           (let data = extract_entity_type entity data;
                data = extract_names entity data;
                (data, nationalities, vessel_flag) =
                   foldl (\<lambda>st feature. feature_step feature st) (data, [], [])
                     (findall_desc2 (ns ''features'') (ns ''feature'') entity);
                data = data(''Nationality'' := (if nationalities \<noteq> [] then join ''; '' nationalities else []));
                data = extract_country entity vessel_flag data;
                data = id_loop (id_docs entity) 0 data;
                data = extract_sanctions_list entity data;
                data = extract_programs entity data
            in data))"

text \<open>
  The entities of a document: those found anywhere without a namespace, replaced by the
  children of an \<open>entities\<close> container when there is one, and by the namespaced children
  of a namespaced container when those are more.
\<close>

definition find_entities :: "element \<Rightarrow> element list" where
  "find_entities root =
     (let entities = findall_desc ''entity'' root;
          entities = (case find_desc ''entities'' root of
                        Some entities_container \<Rightarrow> findall_child ''entity'' entities_container
                      | None \<Rightarrow> entities);
          entities = (case find_desc (ns ''entities'') root of
                        Some entities_container_ns \<Rightarrow>
                          (let entities_ns_direct = findall_child (ns ''entity'') entities_container_ns
                           in if length entities_ns_direct > length entities then entities_ns_direct
                              else entities)
                      | None \<Rightarrow> entities)
      in entities)"

text \<open>The loop over the entities: a row is added only for an entity with a name.\<close>

fun extract_all :: "element list \<Rightarrow> ofac_data list" where
  "extract_all [] = []"
| "extract_all (entity # entities) =
     (let entity_data = extract_entity_data entity
      in if entity_data ''Name'' \<noteq> [] then entity_data # extract_all entities
         else extract_all entities)"

text \<open>The rows of the table \<open>process_sanctions_data\<close> returns for a parsed document.\<close>

definition process_sanctions_data :: "element \<Rightarrow> ofac_data list" where
  "process_sanctions_data root =
     (let entities = find_entities root
      in if length entities = 0 then [] else extract_all entities)"

section \<open>UN consolidated list parser (un\_sanctions\_parser.py)\<close>

datatype py_error = ValueError | OverflowError

subsection \<open>The generation date\<close>

text \<open>
  \<open>datetime.fromisoformat(s).date()\<close> for the documented format
  \<open>YYYY-MM-DD[*HH[:MM[:SS[.fff[fff]]]][+HH:MM[:SS[.ffffff]]]]\<close>, where \<open>*\<close> is any single
  character; \<open>None\<close> is the ValueError raised for any other string. (Later Python versions
  accept further ISO 8601 forms; the model rejects them.)
\<close>

definition two_digits :: "string \<Rightarrow> bool" where
  "two_digits s = (length s = 2 \<and> list_all is_digit s)"

definition parse_hh_mm_ss_ff :: "string \<Rightarrow> (nat \<times> nat \<times> nat) option" where
  "parse_hh_mm_ss_ff t =
     (let hh = take 2 t; r1 = drop 2 t in
      if \<not> two_digits hh then None
      else if r1 = [] then Some (int_of_digits hh, 0, 0)
      else if take 1 r1 \<noteq> '':'' then None
      else
        (let mm = take 2 (drop 1 r1); r2 = drop 3 r1 in
         if \<not> two_digits mm then None
         else if r2 = [] then Some (int_of_digits hh, int_of_digits mm, 0)
         else if take 1 r2 \<noteq> '':'' then None
         else
           (let ss = take 2 (drop 1 r2); r3 = drop 3 r2 in
            if \<not> two_digits ss then None
            else if r3 = [] then Some (int_of_digits hh, int_of_digits mm, int_of_digits ss)
            else if take 1 r3 \<noteq> ''.'' then None
            else
              (let ff = drop 1 r3 in
               if (length ff = 3 \<or> length ff = 6) \<and> list_all is_digit ff
               then Some (int_of_digits hh, int_of_digits mm, int_of_digits ss)
               else None))))"

definition is_sign :: "char \<Rightarrow> bool" where
  "is_sign c = (c = CHR ''+'' \<or> c = CHR ''-'')"

definition valid_time_part :: "string \<Rightarrow> bool" where
  "valid_time_part tstr =
     (let timestr = takeWhile (\<lambda>c. \<not> is_sign c) tstr;
          tzpart = dropWhile (\<lambda>c. \<not> is_sign c) tstr
      in case parse_hh_mm_ss_ff timestr of
           None \<Rightarrow> False
         | Some (h, mi, sec) \<Rightarrow>
             h < 24 \<and> mi < 60 \<and> sec < 60 \<and>
             (tzpart = [] \<or>
              (let tzstr = drop 1 tzpart in
               length tzstr \<in> set [5, 8, 15] \<and>
               (case parse_hh_mm_ss_ff tzstr of
                  None \<Rightarrow> False
                | Some (th, tm, ts) \<Rightarrow> th * 3600 + tm * 60 + ts < 86400))))"

definition fromisoformat_date :: "string \<Rightarrow> date option" where
  "fromisoformat_date s =
     (let dstr = take 10 s; tstr = drop 11 s in
      if length dstr = 10 \<and> list_all is_digit (take 4 dstr) \<and> take 1 (drop 4 dstr) = ''-'' \<and>
         two_digits (take 2 (drop 5 dstr)) \<and> take 1 (drop 7 dstr) = ''-'' \<and>
         two_digits (drop 8 dstr) \<and> (length s = 10 \<or> valid_time_part tstr)
      then make_date (int_of_digits (take 4 dstr)) (int_of_digits (take 2 (drop 5 dstr)))
             (int_of_digits (drop 8 dstr))
      else None)"

text \<open>\<open>s.replace('Z', '+00:00')\<close>.\<close>

definition replace_Z :: "string \<Rightarrow> string" where
  "replace_Z s = concat (map (\<lambda>c. if c = CHR ''Z'' then ''+00:00'' else [c]) s)"

text \<open>\<open>d - timedelta(days=1)\<close>; \<open>None\<close> is the OverflowError before 0001-01-01.\<close>

definition prev_day :: "date \<Rightarrow> date option" where
  "prev_day dt =
     (if day dt > 1 then Some \<lparr>year = year dt, month = month dt, day = day dt - 1\<rparr>
      else if month dt > 1 then
        Some \<lparr>year = year dt, month = month dt - 1, day = days_in_month (year dt) (month dt - 1)\<rparr>
      else if year dt > 1 then Some \<lparr>year = year dt - 1, month = 12, day = 31\<rparr>
      else None)"

subsection \<open>Field extraction\<close>

definition get_text :: "element option \<Rightarrow> string" where
  "get_text e = (case e of Some el \<Rightarrow> if has_text el then strip (text_of el) else [] | None \<Rightarrow> [])"

type_synonym un_data = "string \<Rightarrow> string"

definition dict_of :: "(string \<times> string) list \<Rightarrow> un_data" where
  "dict_of kvs = (\<lambda>k. case map_of kvs k of Some v \<Rightarrow> v | None \<Rightarrow> [])"

definition stripped_texts :: "element list \<Rightarrow> string list" where
  "stripped_texts es = map (\<lambda>e. strip (text_of e)) (filter has_text es)"

definition alias_entry :: "element \<Rightarrow> string option" where
  "alias_entry alias =
     (let alias_name = get_text (find_child ''ALIAS_NAME'' alias);
          quality = get_text (find_child ''QUALITY'' alias)
      in if alias_name \<noteq> [] then
           Some (if quality \<noteq> [] then alias_name @ '' ('' @ quality @ '')'' else alias_name)
         else None)"

definition dob_entry :: "element \<Rightarrow> string option" where
  "dob_entry dob =
     (let date_val = get_text (find_child ''DATE'' dob);
          year_val = get_text (find_child ''YEAR'' dob);
          note_val = get_text (find_child ''NOTE'' dob)
      in if date_val \<noteq> [] then Some date_val
         else if year_val \<noteq> [] then Some year_val
         else if note_val \<noteq> [] then Some note_val
         else None)"

definition pob_entry :: "element \<Rightarrow> string option" where
  "pob_entry pob =
     (let pob_parts = filter (\<lambda>p. p \<noteq> [])
            [get_text (find_child ''CITY'' pob), get_text (find_child ''STATE_PROVINCE'' pob),
             get_text (find_child ''COUNTRY'' pob)]
      in if pob_parts \<noteq> [] then Some (join '', '' pob_parts) else None)"

definition address_parts :: "element \<Rightarrow> string list" where
  "address_parts addr =
     filter (\<lambda>p. p \<noteq> [])
       [get_text (find_child ''STREET'' addr), get_text (find_child ''CITY'' addr),
        get_text (find_child ''STATE_PROVINCE'' addr), get_text (find_child ''COUNTRY'' addr)]"

definition individual_address :: "element \<Rightarrow> string option" where
  "individual_address addr =
     (let note = get_text (find_child ''NOTE'' addr); addr_parts = address_parts addr
      in if addr_parts \<noteq> [] then
           Some (join '', '' addr_parts @ (if note \<noteq> [] then '' ('' @ note @ '')'' else []))
         else None)"

definition entity_address :: "element \<Rightarrow> string option" where
  "entity_address addr =
     (let addr_parts = address_parts addr
      in if addr_parts \<noteq> [] then Some (join '', '' addr_parts) else None)"

definition joined :: "string list \<Rightarrow> string" where
  "joined xs = (if xs \<noteq> [] then join ''; '' xs else [])"

definition extract_individual_data :: "element \<Rightarrow> un_data" where
  "extract_individual_data individual =
     (let name_parts = filter (\<lambda>name. name \<noteq> [])
            [get_text (find_child ''FIRST_NAME'' individual),
             get_text (find_child ''SECOND_NAME'' individual),
             get_text (find_child ''THIRD_NAME'' individual),
             get_text (find_child ''FOURTH_NAME'' individual)];
          full_name = join '' '' name_parts
      in dict_of
           [(''Type'', ''Individual''),
            (''Name'', full_name),
            (''Reference_Number'', get_text (find_child ''REFERENCE_NUMBER'' individual)),
            (''Listed_On'', get_text (find_child ''LISTED_ON'' individual)),
            (''Gender'', get_text (find_child ''GENDER'' individual)),
            (''Designations'', joined (stripped_texts (findall_desc2 ''DESIGNATION'' ''VALUE'' individual))),
            (''Nationalities'', joined (stripped_texts (findall_desc2 ''NATIONALITY'' ''VALUE'' individual))),
            (''Aliases'', joined (List.map_filter alias_entry (findall_desc ''INDIVIDUAL_ALIAS'' individual))),
            (''Date_of_Birth'', joined (List.map_filter dob_entry (findall_desc ''INDIVIDUAL_DATE_OF_BIRTH'' individual))),
            (''Place_of_Birth'', joined (List.map_filter pob_entry (findall_desc ''INDIVIDUAL_PLACE_OF_BIRTH'' individual))),
            (''Addresses'', joined (List.map_filter individual_address (findall_desc ''INDIVIDUAL_ADDRESS'' individual))),
            (''Comments'', get_text (find_child ''COMMENTS1'' individual)),
            (''Source'', ''UN Security Council'')])"

definition un_extract_entity_data :: "element \<Rightarrow> un_data" where
  "un_extract_entity_data entity =
     dict_of
       [(''Type'', ''Entity''),
        (''Name'', get_text (find_child ''FIRST_NAME'' entity)),
        (''Reference_Number'', get_text (find_child ''REFERENCE_NUMBER'' entity)),
        (''Listed_On'', get_text (find_child ''LISTED_ON'' entity)),
        (''Gender'', []),
        (''Designations'', []),
        (''Nationalities'', []),
        (''Aliases'', joined (List.map_filter alias_entry (findall_desc ''ENTITY_ALIAS'' entity))),
        (''Date_of_Birth'', []),
        (''Place_of_Birth'', []),
        (''Addresses'', joined (List.map_filter entity_address (findall_desc ''ENTITY_ADDRESS'' entity))),
        (''Comments'', get_text (find_child ''COMMENTS1'' entity)),
        (''Source'', ''UN Security Council'')]"

subsection \<open>\<open>parse_un_sanctions_xml\<close>\<close>

text \<open>
  The listing date of a record: \<open>None\<close> when it has no \<open>LISTED_ON\<close> child, that child has
  no text, or the text does not parse as \<open>%Y-%m-%d\<close>; in each case the loop goes on to the
  next record.
\<close>

definition listed_date :: "element \<Rightarrow> date option" where
  "listed_date r =
     (case find_child ''LISTED_ON'' r of
        None \<Rightarrow> None
      | Some listed_on \<Rightarrow>
          if has_text listed_on then strptime (text_of listed_on) ''%Y-%m-%d'' else None)"

fun collect :: "(element \<Rightarrow> un_data) \<Rightarrow> date list \<Rightarrow> element list \<Rightarrow> un_data list" where
  "collect extract_data target_dates [] = []"
| "collect extract_data target_dates (r # rs) =
     (case listed_date r of
        Some d \<Rightarrow>
          if d \<in> set target_dates then extract_data r # collect extract_data target_dates rs
          else collect extract_data target_dates rs
      | None \<Rightarrow> collect extract_data target_dates rs)"

definition date_generated :: "date \<Rightarrow> element \<Rightarrow> py_error + date" where
  "date_generated today root =
     (case get_attr root ''dateGenerated'' of
        None \<Rightarrow> Inr today
      | Some date_generated_str \<Rightarrow>
          if date_generated_str = [] then Inr today
          else (case fromisoformat_date (replace_Z date_generated_str) of
                  Some d \<Rightarrow> Inr d
                | None \<Rightarrow> Inl ValueError))"

text \<open>
  The parsed document and the current date give the two lists the function exports
  (individuals, entities), or the error its handler reports. Finding, downloading and
  reading the file, and writing the CSV files, are not modelled.
\<close>

definition parse_un_sanctions_xml :: "date \<Rightarrow> element \<Rightarrow> py_error + (un_data list \<times> un_data list)" where
  "parse_un_sanctions_xml today root =
     (case date_generated today root of
        Inl e \<Rightarrow> Inl e
      | Inr dg \<Rightarrow>
          (case prev_day dg of
             None \<Rightarrow> Inl OverflowError
           | Some yesterday \<Rightarrow>
               (let target_dates = [dg, yesterday];
                    individuals_data =
                      (case find_child ''INDIVIDUALS'' root of
                         Some individuals_section \<Rightarrow>
                           collect extract_individual_data target_dates
                             (findall_child ''INDIVIDUAL'' individuals_section)
                       | None \<Rightarrow> []);
                    entities_data =
                      (case find_child ''ENTITIES'' root of
                         Some entities_section \<Rightarrow>
                           collect un_extract_entity_data target_dates
                             (findall_child ''ENTITY'' entities_section)
                       | None \<Rightarrow> [])
                in Inr (individuals_data, entities_data))))"

section \<open>Document-derived extractor (gemini\_markdown\_csv.py)\<close>

subsection \<open>\<open>clean_csv_response\<close>\<close>

definition fence :: string where
  "fence = [CHR 0x60, CHR 0x60, CHR 0x60]"

text \<open>
  \<open>re.sub(r'```csv\s*\n?', '', s)\<close>: every opening fence goes, with the blanks after it
  (the greedy \<open>\s*\<close> takes the line break too).
\<close>

lemma length_dropWhile_drop: "length (dropWhile P (drop n xs)) < Suc (length xs)"
  by (rule le_imp_less_Suc, rule order_trans[OF length_dropWhile_le]) simp

function remove_csv_fences :: "string \<Rightarrow> string" where
  "remove_csv_fences [] = []"
| "remove_csv_fences (c # cs) =
     (if startswith (fence @ ''csv'') (c # cs)
      then remove_csv_fences (dropWhile is_space (drop (length (fence @ ''csv'')) (c # cs)))
      else c # remove_csv_fences cs)"
  by pat_completeness auto
termination
  by (relation "measure length") (simp_all add: length_dropWhile_drop)

text \<open>
  \<open>re.sub(r'```\s*$', '', s)\<close>: the text is cut at the first fence that only blanks
  follow.
\<close>

fun remove_closing_fence :: "string \<Rightarrow> string" where
  "remove_closing_fence [] = []"
| "remove_closing_fence (c # cs) =
     (if startswith fence (c # cs) \<and> list_all is_space (drop (length fence) (c # cs)) then []
      else c # remove_closing_fence cs)"

definition clean_csv_response :: "string \<Rightarrow> string" where
  "clean_csv_response csv_text = strip (remove_closing_fence (remove_csv_fences csv_text))"

subsection \<open>The first row, as \<open>csv.reader\<close> reads it\<close>

text \<open>
  The reader of the \<open>csv\<close> module in its default dialect (comma, double quote, doubled
  quotes, not strict), as the state machine of the module: the text is read line by line
  (a line ends after a line feed), each character is processed, then the end of the line.
  A NUL character, which older versions of the module refuse, is read like any other.
\<close>

datatype csv_state =
  START_RECORD | START_FIELD | IN_FIELD | IN_QUOTED_FIELD | QUOTE_IN_QUOTED_FIELD | EAT_CRNL

record reader =
  rd_state :: csv_state
  rd_fields :: "string list"
  rd_field :: string

datatype csv_input = Ch char | EOL

definition field_size_limit :: nat where
  "field_size_limit = 131072"

definition parse_save_field :: "reader \<Rightarrow> reader" where
  "parse_save_field r = r\<lparr>rd_fields := rd_fields r @ [rd_field r], rd_field := []\<rparr>"

text \<open>\<open>None\<close> is the \<open>csv.Error\<close> for a field larger than the limit.\<close>

definition parse_add_char :: "char \<Rightarrow> reader \<Rightarrow> reader option" where
  "parse_add_char c r =
     (if length (rd_field r) \<ge> field_size_limit then None
      else Some (r\<lparr>rd_field := rd_field r @ [c]\<rparr>))"

definition is_newline :: "csv_input \<Rightarrow> bool" where
  "is_newline i = (i = Ch (CHR 0x0A) \<or> i = Ch (CHR 0x0D))"

definition after_eol :: "csv_input \<Rightarrow> csv_state" where
  "after_eol i = (if i = EOL then START_RECORD else EAT_CRNL)"

definition start_field :: "reader \<Rightarrow> csv_input \<Rightarrow> reader option" where
  "start_field r i =
     (if is_newline i \<or> i = EOL then Some ((parse_save_field r)\<lparr>rd_state := after_eol i\<rparr>)
      else if i = Ch (CHR 0x22) then Some (r\<lparr>rd_state := IN_QUOTED_FIELD\<rparr>)
      else if i = Ch (CHR '','') then Some (parse_save_field r)
      else (case i of
              Ch c \<Rightarrow> map_option (\<lambda>r'. r'\<lparr>rd_state := IN_FIELD\<rparr>) (parse_add_char c r)
            | EOL \<Rightarrow> Some r))"

definition parse_process_char :: "reader \<Rightarrow> csv_input \<Rightarrow> reader option" where
  "parse_process_char r i =
     (case rd_state r of
        START_RECORD \<Rightarrow>
          if i = EOL then Some r
          else if is_newline i then Some (r\<lparr>rd_state := EAT_CRNL\<rparr>)
          else start_field (r\<lparr>rd_state := START_FIELD\<rparr>) i
      | START_FIELD \<Rightarrow> start_field r i
      | IN_FIELD \<Rightarrow>
          if is_newline i \<or> i = EOL then Some ((parse_save_field r)\<lparr>rd_state := after_eol i\<rparr>)
          else if i = Ch (CHR '','') then Some ((parse_save_field r)\<lparr>rd_state := START_FIELD\<rparr>)
          else (case i of Ch c \<Rightarrow> parse_add_char c r | EOL \<Rightarrow> Some r)
      | IN_QUOTED_FIELD \<Rightarrow>
          if i = EOL then Some r
          else if i = Ch (CHR 0x22) then Some (r\<lparr>rd_state := QUOTE_IN_QUOTED_FIELD\<rparr>)
          else (case i of Ch c \<Rightarrow> parse_add_char c r | EOL \<Rightarrow> Some r)
      | QUOTE_IN_QUOTED_FIELD \<Rightarrow>
          if i = Ch (CHR 0x22) then
            map_option (\<lambda>r'. r'\<lparr>rd_state := IN_QUOTED_FIELD\<rparr>) (parse_add_char (CHR 0x22) r)
          else if i = Ch (CHR '','') then Some ((parse_save_field r)\<lparr>rd_state := START_FIELD\<rparr>)
          else if is_newline i \<or> i = EOL then Some ((parse_save_field r)\<lparr>rd_state := after_eol i\<rparr>)
          else (case i of
                  Ch c \<Rightarrow> map_option (\<lambda>r'. r'\<lparr>rd_state := IN_FIELD\<rparr>) (parse_add_char c r)
                | EOL \<Rightarrow> Some r)
      | EAT_CRNL \<Rightarrow>
          if is_newline i then Some r
          else if i = EOL then Some (r\<lparr>rd_state := START_RECORD\<rparr>)
          else None)"

fun process_inputs :: "reader \<Rightarrow> csv_input list \<Rightarrow> reader option" where
  "process_inputs r [] = Some r"
| "process_inputs r (i # is) =
     (case parse_process_char r i of None \<Rightarrow> None | Some r' \<Rightarrow> process_inputs r' is)"

text \<open>The lines of a text, each with its line feed, as iterating \<open>io.StringIO\<close> gives them.\<close>

fun split_lines :: "string \<Rightarrow> string list" where
  "split_lines [] = []"
| "split_lines (c # cs) =
     (if c = CHR 0x0A then [c] # split_lines cs
      else (case split_lines cs of [] \<Rightarrow> [[c]] | l # ls \<Rightarrow> (c # l) # ls))"

text \<open>
  \<open>next(reader)\<close>: a row, the end of the input, or an error of the module. A record ends
  with the line on which the machine is back in its start state; when the lines run out
  inside a record, what has been read so far is the row.
\<close>

datatype next_result = Row "string list" | StopIteration | CsvError

fun read_record :: "reader \<Rightarrow> string list \<Rightarrow> next_result" where
  "read_record r [] =
     (if rd_field r \<noteq> [] \<or> rd_state r = IN_QUOTED_FIELD then Row (rd_fields (parse_save_field r))
      else StopIteration)"
| "read_record r (line # lines) =
     (case process_inputs r (map Ch line @ [EOL]) of
        None \<Rightarrow> CsvError
      | Some r' \<Rightarrow> if rd_state r' = START_RECORD then Row (rd_fields r') else read_record r' lines)"

definition next_row :: "string \<Rightarrow> next_result" where
  "next_row csv_text =
     read_record \<lparr>rd_state = START_RECORD, rd_fields = [], rd_field = []\<rparr> (split_lines csv_text)"

subsection \<open>\<open>validate_csv_structure\<close> and \<open>convert_markdown_to_csv\<close>\<close>

definition expected_headers :: "string list" where
  "expected_headers =
     [''Name'', ''Aliases'', ''Type'', ''Date of Birth'', ''Place of Birth'',
      ''Gender'', ''Nationality'', ''COUNTRY'', ''ID_1'', ''ID_Type1'',
      ''ID_2'', ''ID_Type2'', ''Date of listing'', ''Watchlist'',
      ''Other info'', ''DOB_DJ'', ''DOB_YEAR'']"

definition validate_csv_structure :: "string \<Rightarrow> bool" where
  "validate_csv_structure csv_text =
     (case next_row csv_text of
        Row headers \<Rightarrow> length headers = length expected_headers
      | StopIteration \<Rightarrow> False
      | CsvError \<Rightarrow> False)"

text \<open>
  The outside world of a conversion: reading the markdown file, the call to the
  text-processing service (\<open>process_markdown_file\<close>, given the content and the file type)
  and saving the output; \<open>Inl\<close> carries the message of the exception raised.
\<close>

record world =
  read_file :: "string \<Rightarrow> string + string"
  process_markdown_file :: "string \<Rightarrow> string \<Rightarrow> string + string"
  save_csv_file :: "string \<Rightarrow> string \<Rightarrow> bool"

text \<open>
  The result dictionary: success with the content and the output path, or failure with
  the error message. The conversion also says whether it printed the warning about the
  structure.
\<close>

datatype conversion = Success string "string option" | Failure string

text \<open>An optional argument when it is given and not empty, as \<open>if x:\<close> tests it.\<close>

fun given :: "string option \<Rightarrow> string option" where
  "given None = None"
| "given (Some s) = (if s \<noteq> [] then Some s else None)"

definition finish_conversion :: "world \<Rightarrow> string option \<Rightarrow> bool \<Rightarrow> string \<Rightarrow> bool \<times> conversion" where
  "finish_conversion w output_path is_base64 content =
     (case process_markdown_file w content (if is_base64 then ''base64'' else ''text'') of
        Inl e \<Rightarrow> (False, Failure e)
      | Inr csv_response \<Rightarrow>
          (let csv_content = clean_csv_response csv_response;
               warned = (\<not> validate_csv_structure csv_content)
           in case given output_path of
                Some path \<Rightarrow>
                  if save_csv_file w csv_content path then (warned, Success csv_content output_path)
                  else (warned, Failure ''Failed to save CSV file'')
              | None \<Rightarrow> (warned, Success csv_content output_path)))"

definition convert_markdown_to_csv :: "world \<Rightarrow> string option \<Rightarrow> string option \<Rightarrow> string option \<Rightarrow> bool \<Rightarrow> bool \<times> conversion" where
  "convert_markdown_to_csv w markdown_file_path markdown_content output_path is_base64 =
     (case given markdown_file_path of
        Some path \<Rightarrow>
          (case read_file w path of
             Inl e \<Rightarrow> (False, Failure e)
           | Inr content \<Rightarrow> finish_conversion w output_path is_base64 content)
      | None \<Rightarrow>
          (case given markdown_content of
             Some content \<Rightarrow> finish_conversion w output_path is_base64 content
           | None \<Rightarrow> (False, Failure ''No markdown content provided'')))"

section \<open>Example tables\<close>

definition two_codes_table :: dataframe where
  "two_codes_table =
     \<lparr>columns = [''Name'', ''Watchlist''],
      rows = [mk_row [(''Name'', Str ''ALPHA''), (''Watchlist'', Str ''2025/1578'')],
              mk_row [(''Name'', Str ''BETA''), (''Watchlist'', Str ''2024/999'')]]\<rparr>"

definition names_only_table :: dataframe where
  "names_only_table =
     \<lparr>columns = [''Name''],
      rows = [mk_row [(''Name'', Str ''ALPHA'')], mk_row [(''Name'', Str ''BETA'')]]\<rparr>"

definition dob_table :: dataframe where
  "dob_table =
     \<lparr>columns = [''Name'', ''DOB_DJ'', ''Watchlist''],
      rows = [mk_row [(''Name'', Str ''ALPHA''), (''DOB_DJ'', Str ''12/10/1958''), (''Watchlist'', Str ''OFAC'')],
              mk_row [(''Name'', Str ''BETA''), (''DOB_DJ'', Str ''circa 1958''), (''Watchlist'', Str ''UN'')]]\<rparr>"

definition ofac_table :: dataframe where
  "ofac_table =
     \<lparr>columns = [''Name'', ''Type'', ''Watchlist''],
      rows = [mk_row [(''Name'', Str ''CHARLIE''), (''Type'', Str ''Individual''),
                      (''Watchlist'', Str ''OFAC - Specially Designated National List'')],
              mk_row [(''Name'', Str ''ALPHA''), (''Type'', Str ''Entity''),
                      (''Watchlist'', Str ''OFAC - Specially Designated National List'')]]\<rparr>"

definition pdf_table :: dataframe where
  "pdf_table =
     \<lparr>columns = [''Name'', ''Type'', ''Watchlist''],
      rows = [mk_row [(''Name'', Str ''ALPHA''), (''Type'', Str ''Vessel''), (''Watchlist'', NaN)],
              mk_row [(''Name'', Str ''BETA''), (''Type'', Str ''Individual''), (''Watchlist'', NaN)]]\<rparr>"

definition example_files :: "(string \<times> dataframe option) list" where
  "example_files =
     [(''sanctions_cleaned_ofac_2025-07-30.csv'', Some ofac_table),
      (''sanctions_from_202501578_20250730.csv'', Some pdf_table)]"

section \<open>Example documents\<close>

definition leaf :: "string \<Rightarrow> string \<Rightarrow> element" where
  "leaf t x = Element (ns t) [] (Some x) []"

definition node :: "string \<Rightarrow> element list \<Rightarrow> element" where
  "node t cs = Element (ns t) [] None cs"

definition name_elem :: "string \<Rightarrow> string \<Rightarrow> element" where
  "name_elem primary full_name =
     node ''name''
       [leaf ''isPrimary'' primary,
        node ''translations'' [node ''translation'' [leaf ''formattedFullName'' full_name]]]"

definition id_doc :: "string \<Rightarrow> string \<Rightarrow> element" where
  "id_doc ref_id number =
     node ''identityDocument''
       [Element (ns ''type'') [(''refId'', ref_id)] None [], leaf ''documentNumber'' number]"

definition id_doc_without_number :: "string \<Rightarrow> element" where
  "id_doc_without_number ref_id =
     node ''identityDocument'' [Element (ns ''type'') [(''refId'', ref_id)] None []]"

definition entity_elem :: "string \<Rightarrow> string \<Rightarrow> element list \<Rightarrow> element" where
  "entity_elem action full_name docs =
     Element (ns ''entity'') [(''action'', action)] None
       [node ''generalInfo'' [Element (ns ''entityType'') [(''refId'', ''601'')] None []],
        node ''names'' [name_elem ''true'' full_name],
        node ''identityDocuments'' docs]"

definition five_docs :: "element list" where
  "five_docs =
     [id_doc ''1571'' ''P-100'', id_doc ''9999'' ''X-200'', id_doc ''1584'' ''N-300'',
      id_doc ''1576'' ''T-400'', id_doc ''1575'' ''D-500'']"

definition gap_docs :: "element list" where
  "gap_docs = [id_doc_without_number ''1571'', id_doc ''1584'' ''N-300'', id_doc ''1576'' ''T-400'']"

definition example_delta :: element where
  "example_delta =
     node ''sanctionsData''
       [node ''entities''
          [entity_elem ''add'' ''ALPHA CORP'' five_docs,
           entity_elem ''modify'' ''BETA CORP'' five_docs,
           entity_elem ''delete'' ''GAMMA CORP'' five_docs]]"

definition un_leaf :: "string \<Rightarrow> string \<Rightarrow> element" where
  "un_leaf t x = Element t [] (Some x) []"

definition individual :: "string \<Rightarrow> string \<Rightarrow> element list \<Rightarrow> element" where
  "individual first_name second_name others =
     Element ''INDIVIDUAL'' [] None
       ([un_leaf ''FIRST_NAME'' first_name, un_leaf ''SECOND_NAME'' second_name] @ others)"

definition un_example :: element where
  "un_example =
     Element ''CONSOLIDATED_LIST'' [(''dateGenerated'', ''2025-07-30T23:00:05.333Z'')] None
       [Element ''INDIVIDUALS'' [] None
          [individual ''ANNA'' ''ONE'' [un_leaf ''LISTED_ON'' ''2025-07-30''],
           individual ''BEN'' ''TWO'' [un_leaf ''LISTED_ON'' ''2025-07-29''],
           individual ''CARL'' ''THREE'' [un_leaf ''LISTED_ON'' ''2025-07-28''],
           individual ''DORA'' ''FOUR'' [un_leaf ''LISTED_ON'' ''2025-07-31''],
           individual ''EMIL'' ''FIVE'' [un_leaf ''LISTED_ON'' ''30 July 2025''],
           individual ''FAYE'' ''SIX'' []]]"

definition some_day :: date where
  "some_day = \<lparr>year = 2026, month = 1, day = 15\<rparr>"

section \<open>Example responses\<close>

definition header_line :: string where
  "header_line = join '','' expected_headers"

definition record_line :: string where
  "record_line = ''ALPHA CORP,None,Entity,None,None,None,None,RU,None,None,None,None,2025-07-18,2025/1578,None,None,None''"

definition good_response :: string where
  "good_response =
     fence @ ''csv'' @ [CHR 0x0A] @ header_line @ [CHR 0x0A] @ record_line @ [CHR 0x0A] @ fence"

definition short_response :: string where
  "short_response = ''Name,Type,Watchlist'' @ [CHR 0x0A] @ ''ALPHA CORP,Entity,2025/1578''"

text \<open>
  Two worlds with no readable file: in one the service returns the well-formed response
  and saving fails, in the other the service returns a three-column table.
\<close>

definition world_save_fails :: world where
  "world_save_fails =
     \<lparr>read_file = (\<lambda>path. Inl ''No such file or directory''),
      process_markdown_file = (\<lambda>content file_type. Inr good_response),
      save_csv_file = (\<lambda>csv_content path. False)\<rparr>"

definition world_short_table :: world where
  "world_short_table =
     \<lparr>read_file = (\<lambda>path. Inl ''No such file or directory''),
      process_markdown_file = (\<lambda>content file_type. Inr short_response),
      save_csv_file = (\<lambda>csv_content path. True)\<rparr>"

text \<open>A world whose file can be read and whose service call raises.\<close>

definition world_service_fails :: world where
  "world_service_fails =
     \<lparr>read_file = (\<lambda>path. Inr ''# list''),
      process_markdown_file = (\<lambda>content file_type. Inl ''Error processing markdown: timeout''),
      save_csv_file = (\<lambda>csv_content path. True)\<rparr>"

section \<open>Properties of the Watchlist resolution\<close>

lemma takeWhile_digits_sep:
  "list_all is_digit ds \<Longrightarrow> \<not> is_digit c \<Longrightarrow> takeWhile is_digit (ds @ c # post) = ds"
  by (induction ds) auto

lemma dropWhile_digits_sep:
  "list_all is_digit ds \<Longrightarrow> \<not> is_digit c \<Longrightarrow> dropWhile is_digit (ds @ c # post) = c # post"
  by (induction ds) auto

lemma search_sanctions_from_prefix:
  assumes "list_all is_digit ds" "ds \<noteq> []"
  shows "search_sanctions_from (''sanctions_from_'' @ ds @ ''_'' @ post) = Some ds"
  using assms
  by (simp add: match_sanctions_from_def takeWhile_digits_sep dropWhile_digits_sep is_digit_def)

lemma extract_eu_nonempty: "extract_eu_watchlist_from_number ds \<noteq> []"
  by (simp add: extract_eu_watchlist_from_number_def Let_def)

lemma resolve_watchlist_from_filename:
  assumes "list_all is_digit ds" "ds \<noteq> []" "''Source'' \<notin> set (columns df)"
    and "rows df \<noteq> [] \<longrightarrow> hd (rows df) ''Watchlist'' = Str []"
  shows "resolve_watchlist df (''sanctions_from_'' @ ds @ ''_'' @ post) =
      extract_eu_watchlist_from_number ds"
proof -
  have c: "contains ''sanctions_from_'' (''sanctions_from_'' @ ds @ ''_'' @ post)"
    by simp
  show ?thesis
    unfolding resolve_watchlist_def Let_def search_sanctions_from_prefix[OF assms(1,2)]
    using assms(3,4) c extract_eu_nonempty[of ds] by (auto simp: lower_def)
qed

lemma digits_are_digit_chars: "list_all is_digit ds \<Longrightarrow> list_all is_digit_char ds"
  by (induction ds) (simp_all add: is_digit_char_def)

lemma extract_eu_on_digits:
  assumes "list_all is_digit ds"
  shows "extract_eu_watchlist_from_number ds =
   (if 8 \<le> length ds \<and> dropWhile (\<lambda>c. c = CHR ''0'') (drop 4 ds) \<noteq> []
    then take 4 ds @ ''/'' @ dropWhile (\<lambda>c. c = CHR ''0'') (drop 4 ds) else ''EU'')"
  using digits_are_digit_chars[OF assms]
  by (auto simp add: extract_eu_watchlist_from_number_def isdigit_def Let_def)

lemma update_from_filename:
  assumes "list_all is_digit ds" "ds \<noteq> []" "''Source'' \<notin> set (columns df)"
    "''Watchlist'' \<notin> set (columns df)"
  shows "map (\<lambda>r. r ''Watchlist'')
            (rows (update_watchlist_column df (''sanctions_from_'' @ ds @ ''_'' @ post))) =
         replicate (length (rows df)) (Str (extract_eu_watchlist_from_number ds))"
proof -
  let ?df = "set_column df ''Watchlist'' (Str [])"
  have 1: "''Source'' \<notin> set (columns ?df)" using assms(3) by (simp add: set_column_def)
  have 2: "rows ?df \<noteq> [] \<longrightarrow> hd (rows ?df) ''Watchlist'' = Str []"
    by (cases "rows df") (simp_all add: set_column_def)
  have "resolve_watchlist ?df (''sanctions_from_'' @ ds @ ''_'' @ post) =
      extract_eu_watchlist_from_number ds"
    by (rule resolve_watchlist_from_filename[OF assms(1,2) 1 2])
  then show ?thesis
    using assms(4)
    by (simp add: update_watchlist_column_def Let_def set_column_def o_def map_replicate_const)
qed

text \<open>
  C4. For a digit string \<open>ds\<close> taken from a document-derived file name, the derived
  Watchlist value is the first four digits, a slash and the remaining digits without their
  leading zeros when \<open>ds\<close> has at least 8 digits and that remainder is not empty, and the
  literal \<open>EU\<close> otherwise. A table with no Source and no Watchlist column read from a file
  whose name starts with \<open>sanctions_from_\<close>, the digits and an underscore gets that value in
  every row.
\<close>

theorem eu_code_derivation:
  assumes "list_all is_digit ds"
  shows "extract_eu_watchlist_from_number ds =
           (if 8 \<le> length ds \<and> dropWhile (\<lambda>c. c = CHR ''0'') (drop 4 ds) \<noteq> []
            then take 4 ds @ ''/'' @ dropWhile (\<lambda>c. c = CHR ''0'') (drop 4 ds)
            else ''EU'') \<and>
         (ds \<noteq> [] \<and> ''Source'' \<notin> set (columns df) \<and> ''Watchlist'' \<notin> set (columns df) \<longrightarrow>
            map (\<lambda>r. r ''Watchlist'')
              (rows (update_watchlist_column df (''sanctions_from_'' @ ds @ ''_'' @ post))) =
            replicate (length (rows df)) (Str (extract_eu_watchlist_from_number ds)))"
  using assms extract_eu_on_digits update_from_filename by blast

text \<open>
  The three codes of the specification, and a two-row table read from
  \<open>sanctions_from_202501578_20250730.csv\<close>.
\<close>

theorem eu_code_derivation_witness:
  "extract_eu_watchlist_from_number ''202501578'' = ''2025/1578'' \<and>
   extract_eu_watchlist_from_number ''2025000'' = ''EU'' \<and>
   extract_eu_watchlist_from_number ''20250000'' = ''EU'' \<and>
   map (\<lambda>r. r ''Watchlist'')
     (rows (update_watchlist_column names_only_table ''sanctions_from_202501578_20250730.csv'')) =
   [Str ''2025/1578'', Str ''2025/1578'']"
proof -
  have d1: "list_all is_digit ''202501578''" by (simp add: is_digit_def)
  have d2: "list_all is_digit ''2025000''" by (simp add: is_digit_def)
  have d3: "list_all is_digit ''20250000''" by (simp add: is_digit_def)
  have a: "extract_eu_watchlist_from_number ''202501578'' = ''2025/1578''"
    using eu_code_derivation[OF d1, of names_only_table "[]"] by simp
  have b: "extract_eu_watchlist_from_number ''2025000'' = ''EU''"
    using eu_code_derivation[OF d2, of names_only_table "[]"] by simp
  have c: "extract_eu_watchlist_from_number ''20250000'' = ''EU''"
    using eu_code_derivation[OF d3, of names_only_table "[]"] by simp
  have e: "map (\<lambda>r. r ''Watchlist'')
     (rows (update_watchlist_column names_only_table ''sanctions_from_202501578_20250730.csv'')) =
     [Str ''2025/1578'', Str ''2025/1578'']"
    using eu_code_derivation[OF d1, of names_only_table "''20250730.csv''"] a
    by (simp add: names_only_table_def)
  from a b c e show ?thesis by simp
qed

text \<open>
  C2. The canonicalisation is not idempotent: a missing value becomes \<open>Unknown\<close>, and
  \<open>Unknown\<close> itself, which contains the keyword \<open>un\<close>, becomes \<open>UN\<close>. So \<open>Unknown\<close> is not
  a fixed point, and a second pass changes the result of the first.
\<close>

theorem watchlist_canonicalization_maps_unknown_to_un:
  "clean_watchlist_value NaN = ''Unknown'' \<and>
   clean_watchlist_value (Str ''Unknown'') = ''UN'' \<and>
   clean_watchlist_value (Str (clean_watchlist_value NaN)) \<noteq> clean_watchlist_value NaN"
  by (simp add: clean_watchlist_value_def strip_def lstrip_def rstrip_def is_space_def
      lower_def lower_char_def capital_letters_def small_letters_def)

lemma resolve_watchlist_keep:
  assumes "rows df \<noteq> []" and "''Watchlist'' \<in> set (columns df)"
    and "hd (rows df) ''Watchlist'' = Str w"
    and "''Source'' \<in> set (columns df) \<longrightarrow>
           \<not> contains ''un'' (lower (str (hd (rows df) ''Source''))) \<and>
           \<not> contains ''security council'' (lower (str (hd (rows df) ''Source'')))"
    and "\<not> contains ''ofac'' (lower w)" and "\<not> contains ''specially designated'' (lower w)"
    and "w \<noteq> []" and "lower w \<noteq> ''nan''"
  shows "resolve_watchlist df filename = w"
  using assms unfolding resolve_watchlist_def Let_def by (auto simp: lower_def)

text \<open>
  C3 (as amended). The precedence is evaluated once per table, on its first row: when the
  first row has no UN-indicative Source, no OFAC keyword in its Watchlist value, and that
  value \<open>w\<close> is neither empty nor the placeholder \<open>nan\<close>, every row of the table receives
  \<open>w\<close>; the columns, the other cells, and the number and order of rows stay as they are.
\<close>

theorem watchlist_resolved_per_table:
  assumes "rows df \<noteq> []" and "''Watchlist'' \<in> set (columns df)"
    and "hd (rows df) ''Watchlist'' = Str w"
    and "''Source'' \<in> set (columns df) \<longrightarrow>
           \<not> contains ''un'' (lower (str (hd (rows df) ''Source''))) \<and>
           \<not> contains ''security council'' (lower (str (hd (rows df) ''Source'')))"
    and "\<not> contains ''ofac'' (lower w)" and "\<not> contains ''specially designated'' (lower w)"
    and "w \<noteq> []" and "lower w \<noteq> ''nan''"
  shows "update_watchlist_column df filename =
           df\<lparr>rows := map (\<lambda>r. r(''Watchlist'' := Str w)) (rows df)\<rparr>"
  using assms(2) resolve_watchlist_keep[OF assms]
  by (simp add: update_watchlist_column_def set_column_def)

text \<open>A table whose two rows carry different regulation codes: both end with the first.\<close>

theorem watchlist_resolved_per_table_witness:
  "map (\<lambda>r. r ''Watchlist'') (rows two_codes_table) = [Str ''2025/1578'', Str ''2024/999''] \<and>
   map (\<lambda>r. r ''Watchlist'')
     (rows (update_watchlist_column two_codes_table ''sanctions_cleaned_20250730.csv'')) =
   [Str ''2025/1578'', Str ''2025/1578'']"
proof -
  have "update_watchlist_column two_codes_table ''sanctions_cleaned_20250730.csv'' =
      two_codes_table\<lparr>rows := map (\<lambda>r. r(''Watchlist'' := Str ''2025/1578'')) (rows two_codes_table)\<rparr>"
    by (rule watchlist_resolved_per_table)
       (simp_all add: two_codes_table_def mk_row_def lower_def lower_char_def capital_letters_def small_letters_def)
  then show ?thesis by (simp add: two_codes_table_def mk_row_def)
qed

text \<open>
  The second row has a non-empty, non-placeholder value, no Source and no OFAC keyword, and
  does not keep it.
\<close>

theorem second_row_loses_its_watchlist:
  "(rows two_codes_table ! 1) ''Watchlist'' = Str ''2024/999'' \<and>
   (rows (update_watchlist_column two_codes_table ''sanctions_cleaned_20250730.csv'') ! 1) ''Watchlist''
      = Str ''2025/1578''"
  by (simp add: two_codes_table_def mk_row_def update_watchlist_column_def set_column_def
      resolve_watchlist_def lower_def lower_char_def capital_letters_def small_letters_def)

section \<open>Properties of the date normalisation\<close>






























text \<open>
  C10. The DOB\_DJ pass keeps the columns, the number and order of the rows and every
  cell outside the DOB\_DJ column; a table with no DOB\_DJ column comes back as it is.
\<close>

theorem standardize_dob_format_frame:
  "columns (standardize_dob_format df) = columns df \<and>
   length (rows (standardize_dob_format df)) = length (rows df) \<and>
   (\<forall>i c. i < length (rows df) \<and> c \<noteq> ''DOB_DJ'' \<longrightarrow>
      (rows (standardize_dob_format df) ! i) c = (rows df ! i) c) \<and>
   (''DOB_DJ'' \<notin> set (columns df) \<longrightarrow> standardize_dob_format df = df)"
  by (simp add: standardize_dob_format_def apply_column_def)

text \<open>A table with a DOB\_DJ column between two others, and one without.\<close>

theorem standardize_dob_format_frame_witness:
  "columns (standardize_dob_format dob_table) = [''Name'', ''DOB_DJ'', ''Watchlist''] \<and>
   length (rows (standardize_dob_format dob_table)) = 2 \<and>
   (rows (standardize_dob_format dob_table) ! 0) ''Name'' = Str ''ALPHA'' \<and>
   (rows (standardize_dob_format dob_table) ! 1) ''Watchlist'' = Str ''UN'' \<and>
   standardize_dob_format names_only_table = names_only_table"
proof -
  have 1: "''DOB_DJ'' \<notin> set (columns names_only_table)" by (simp add: names_only_table_def)
  have 2: "(0::nat) < length (rows dob_table) \<and> ''Name'' \<noteq> ''DOB_DJ''"
    "(1::nat) < length (rows dob_table) \<and> ''Watchlist'' \<noteq> ''DOB_DJ''"
    by (simp_all add: dob_table_def)
  have 3: "(rows dob_table ! 0) ''Name'' = Str ''ALPHA''" "(rows dob_table ! 1) ''Watchlist'' = Str ''UN''"
    "columns dob_table = [''Name'', ''DOB_DJ'', ''Watchlist'']" "length (rows dob_table) = 2"
    by (simp_all add: dob_table_def mk_row_def)
  show ?thesis
    using standardize_dob_format_frame[of names_only_table] standardize_dob_format_frame[of dob_table]
      1 2 3 by metis
qed

section \<open>Properties of the consolidation\<close>

lemma find_first_of_filter: "List.find P xs = first_of (filter P xs)"
  by (induction xs) auto

lemma find_drop_duplicates_from:
  "List.find (\<lambda>r. key r = n) (drop_duplicates_from seen key xs) =
     (if n \<in> set seen then None else List.find (\<lambda>r. key r = n) xs)"
proof (induction xs arbitrary: seen)
  case Nil
  then show ?case by simp
next
  case (Cons x xs)
  show ?case
  proof (cases "key x \<in> set seen")
    case True
    then show ?thesis using Cons.IH[of seen] by auto
  next
    case False
    then show ?thesis using Cons.IH[of "key x # seen"] by auto
  qed
qed

lemma keys_drop_duplicates_from:
  "set (map key (drop_duplicates_from seen key xs)) \<inter> set seen = {} \<and>
   distinct (map key (drop_duplicates_from seen key xs))"
proof (induction xs arbitrary: seen)
  case Nil
  then show ?case by simp
next
  case (Cons x xs)
  show ?case
  proof (cases "key x \<in> set seen")
    case True
    then show ?thesis using Cons.IH[of seen] by simp
  next
    case False
    then show ?thesis using Cons.IH[of "key x # seen"] by auto
  qed
qed

lemma find_drop_duplicates:
  "List.find (\<lambda>r. key r = n) (drop_duplicates key xs) = List.find (\<lambda>r. key r = n) xs"
  by (simp add: drop_duplicates_def find_drop_duplicates_from)

lemma distinct_drop_duplicates: "distinct (map key (drop_duplicates key xs))"
  using keys_drop_duplicates_from[of key "[]" xs] by (simp add: drop_duplicates_def)

lemma length_drop_duplicates_from: "length (drop_duplicates_from seen key xs) \<le> length xs"
  by (induction xs arbitrary: seen) (auto simp: le_SucI)

lemma name_key_inj: "name_key a = name_key b \<longleftrightarrow> a = b"
  by (cases a; cases b) auto

lemma find_sort_by_name:
  "List.find (\<lambda>r. r c = n) (sort_key (\<lambda>r. name_key (r c)) xs) = List.find (\<lambda>r. r c = n) xs"
proof -
  have "filter (\<lambda>r. name_key (r c) = name_key n) (sort_key (\<lambda>r. name_key (r c)) xs) =
        filter (\<lambda>r. name_key (r c) = name_key n) xs"
    by (rule sort_key_stable)
  then show ?thesis by (simp add: find_first_of_filter name_key_inj)
qed

lemma distinct_map_sort_key:
  "distinct (map f (sort_key g xs)) = distinct (map f xs)"
  by (simp add: distinct_map)

lemma column_standardize_dob:
  "c \<noteq> ''DOB_DJ'' \<Longrightarrow> map (\<lambda>r. r c) (rows (standardize_dob_format df)) = map (\<lambda>r. r c) (rows df)"
  by (simp add: standardize_dob_format_def apply_column_def)

lemma column_standardize_watchlist:
  "c \<noteq> ''Watchlist'' \<Longrightarrow> map (\<lambda>r. r c) (rows (standardize_watchlist df)) = map (\<lambda>r. r c) (rows df)"
  by (simp add: standardize_watchlist_def apply_column_def)

lemma column_update_watchlist:
  assumes "c \<noteq> ''Watchlist''"
  shows "map (\<lambda>r. cells (update_watchlist_column df fname) r c) (rows (update_watchlist_column df fname)) =
         map (\<lambda>r. cells df r c) (rows df)"
  using assms by (auto simp: update_watchlist_column_def set_column_def cells_def Let_def)

lemma load_tables_Nil: "load_tables [] = []"
  by (simp add: load_tables_def List.map_filter_simps)

lemma load_tables_None: "load_tables ((fname, None) # files) = load_tables files"
  by (simp add: load_tables_def List.map_filter_simps del: length_greater_0_conv)

lemma load_tables_Some:
  "load_tables ((fname, Some df) # files) =
     (if 0 < length (rows df) then (fname, update_watchlist_column df fname) # load_tables files
      else load_tables files)"
  by (simp add: load_tables_def List.map_filter_simps del: length_greater_0_conv)

lemma column_loaded:
  assumes "c \<noteq> ''Watchlist''"
  shows "concat (map (\<lambda>df. map (\<lambda>r. cells df r c) (rows df)) (map snd (load_tables files))) =
         concat (map (\<lambda>(file, t). case t of None \<Rightarrow> [] | Some df \<Rightarrow> map (\<lambda>r. cells df r c) (rows df)) files)"
proof (induction files)
  case Nil
  then show ?case by (simp add: load_tables_Nil)
next
  case (Cons p files)
  obtain fname t where p: "p = (fname, t)" by (cases p)
  show ?case
  proof (cases t)
    case None
    then show ?thesis using Cons.IH by (simp add: p load_tables_None)
  next
    case (Some df)
    then show ?thesis
      using Cons.IH column_update_watchlist[OF assms, of df fname]
      by (simp add: p load_tables_Some)
  qed
qed

lemma column_concat_frames:
  "map (\<lambda>r. r c) (rows (concat_frames dfs)) = concat (map (\<lambda>df. map (\<lambda>r. cells df r c) (rows df)) dfs)"
  by (simp add: concat_frames_def map_concat o_def)

text \<open>
  C1. When consolidation succeeds, let \<open>pre\<close> be the concatenated table after the two
  normalisation passes. Outside the Watchlist and DOB\_DJ columns its rows are the rows of
  the input tables in input order (NaN where a table lacks the column). For every Name
  value, the first row of the output with that name is the first row of \<open>pre\<close> with that
  name, and the names of the output are distinct: exactly the first row of each name
  survives, so a name shared by two tables survives as the first table's row. The output
  is sorted ascending by Name (missing names last), and the summary reports the number of
  rows removed and the number of rows kept.
\<close>

theorem consolidation_keeps_first_rows:
  assumes "step6_consolidate_data files = Some (out, s)"
    and "pre = rows (standardize_watchlist (standardize_dob_format
                 (concat_frames (map snd (load_tables files)))))"
  shows "(\<forall>c. c \<noteq> ''Watchlist'' \<and> c \<noteq> ''DOB_DJ'' \<longrightarrow>
            map (\<lambda>r. r c) pre =
            concat (map (\<lambda>(file, t). case t of None \<Rightarrow> []
                                      | Some df \<Rightarrow> map (\<lambda>r. cells df r c) (rows df)) files)) \<and>
         (\<forall>n. List.find (\<lambda>r. r ''Name'' = n) (rows out) = List.find (\<lambda>r. r ''Name'' = n) pre) \<and>
         distinct (map (\<lambda>r. r ''Name'') (rows out)) \<and>
         sorted (map (\<lambda>r. name_key (r ''Name'')) (rows out)) \<and>
         duplicate_removed s = length pre - length (rows out) \<and>
         total_records s = length (rows out)"
proof -
  let ?dedup = "drop_duplicates (\<lambda>r. r ''Name'') pre"
  from assms have out: "rows out = sort_key (\<lambda>r. name_key (r ''Name'')) ?dedup"
    and dup: "duplicate_removed s = length pre - length ?dedup"
    and tot: "total_records s = length (rows out)"
    by (auto simp: step6_consolidate_data_def Let_def sort_values_def split: if_splits)
  have a: "\<forall>c. c \<noteq> ''Watchlist'' \<and> c \<noteq> ''DOB_DJ'' \<longrightarrow>
            map (\<lambda>r. r c) pre =
            concat (map (\<lambda>(file, t). case t of None \<Rightarrow> []
                                      | Some df \<Rightarrow> map (\<lambda>r. cells df r c) (rows df)) files)"
    by (simp add: assms(2) column_standardize_watchlist column_standardize_dob
        column_concat_frames column_loaded[unfolded map_map])
  have b: "\<forall>n. List.find (\<lambda>r. r ''Name'' = n) (rows out) = List.find (\<lambda>r. r ''Name'' = n) pre"
    by (simp add: out find_sort_by_name find_drop_duplicates)
  have c: "distinct (map (\<lambda>r. r ''Name'') (rows out))"
    unfolding out distinct_map_sort_key by (rule distinct_drop_duplicates)
  have d: "sorted (map (\<lambda>r. name_key (r ''Name'')) (rows out))"
    unfolding out by (rule sorted_sort_key)
  from a b c d dup tot show ?thesis by (simp add: out)
qed

text \<open>
  An OFAC table and a document-derived table that share the name ALPHA: the row of the
  first table survives, one row is reported removed, and the output is sorted by name.
\<close>

theorem consolidation_keeps_first_rows_witness:
  "(case step6_consolidate_data example_files of
      None \<Rightarrow> False
    | Some (out, s) \<Rightarrow>
        map (\<lambda>r. r ''Name'') (rows out) = [Str ''ALPHA'', Str ''BETA'', Str ''CHARLIE''] \<and>
        map (\<lambda>r. r ''Type'') (rows out) = [Str ''Entity'', Str ''Individual'', Str ''Individual''] \<and>
        map (\<lambda>r. r ''Watchlist'') (rows out) = [Str ''OFAC'', Str ''2025/1578'', Str ''OFAC''] \<and>
        duplicate_removed s = 1 \<and> total_records s = 3 \<and>
        distinct (map (\<lambda>r. r ''Name'') (rows out)) \<and>
        sorted (map (\<lambda>r. name_key (r ''Name'')) (rows out)))"
proof -
  have direct:
    "(case step6_consolidate_data example_files of
        None \<Rightarrow> False
      | Some (out, s) \<Rightarrow>
          map (\<lambda>r. r ''Name'') (rows out) = [Str ''ALPHA'', Str ''BETA'', Str ''CHARLIE''] \<and>
          map (\<lambda>r. r ''Type'') (rows out) = [Str ''Entity'', Str ''Individual'', Str ''Individual''] \<and>
          map (\<lambda>r. r ''Watchlist'') (rows out) = [Str ''OFAC'', Str ''2025/1578'', Str ''OFAC''] \<and>
          duplicate_removed s = 1 \<and> total_records s = 3)"
    by code_simp
  then obtain out s where eq: "step6_consolidate_data example_files = Some (out, s)"
    by (cases "step6_consolidate_data example_files") auto
  have ds: "distinct (map (\<lambda>r. r ''Name'') (rows out)) \<and>
      sorted (map (\<lambda>r. name_key (r ''Name'')) (rows out))"
    using consolidation_keeps_first_rows[OF eq refl] by blast
  from direct have d:
    "map (\<lambda>r. r ''Name'') (rows out) = [Str ''ALPHA'', Str ''BETA'', Str ''CHARLIE''] \<and>
     map (\<lambda>r. r ''Type'') (rows out) = [Str ''Entity'', Str ''Individual'', Str ''Individual''] \<and>
     map (\<lambda>r. r ''Watchlist'') (rows out) = [Str ''OFAC'', Str ''2025/1578'', Str ''OFAC''] \<and>
     duplicate_removed s = 1 \<and> total_records s = 3"
    by (simp add: eq)
  from d ds show ?thesis unfolding eq by simp
qed

section \<open>Properties of the OFAC extractor\<close>

lemma extract_all_filter:
  "extract_all es = filter (\<lambda>d. d ''Name'' \<noteq> []) (map extract_entity_data es)"
  by (induction es) (simp_all add: Let_def)

lemma extract_non_add:
  "get_attr_default entity ''action'' [] \<noteq> ''add'' \<Longrightarrow> extract_entity_data entity = empty_data"
  by (simp add: extract_entity_data_def Let_def)

lemma action_add_attr:
  "get_attr_default e ''action'' [] = ''add'' \<longleftrightarrow> get_attr e ''action'' = Some ''add''"
  by (simp add: get_attr_default_def get_attr_def split: option.splits)

lemma rows_come_from_add:
  assumes "d \<in> set (extract_all es)"
  shows "\<exists>e \<in> set es. get_attr e ''action'' = Some ''add'' \<and> d = extract_entity_data e"
proof -
  from assms obtain e where e: "e \<in> set es" "d = extract_entity_data e" "d ''Name'' \<noteq> []"
    by (auto simp: extract_all_filter)
  have "get_attr_default e ''action'' [] = ''add''"
  proof (rule ccontr)
    assume "get_attr_default e ''action'' [] \<noteq> ''add''"
    then have "d = empty_data" using e(2) by (simp add: extract_non_add)
    with e(3) show False by (simp add: empty_data_def)
  qed
  with e show ?thesis by (auto simp: action_add_attr)
qed


text \<open>
  C6. An entity whose \<open>action\<close> attribute is not \<open>add\<close> (or is absent) yields the empty
  record, whatever its content, and adds no row: the rows extracted from a list of entities
  are the same with or without it. Every row of the output table comes from an entity of
  the document with \<open>action="add"\<close>.
\<close>

theorem only_added_entities_give_rows:
  "(get_attr_default entity ''action'' [] \<noteq> ''add'' \<longrightarrow>
      extract_entity_data entity = empty_data \<and>
      extract_all (before @ entity # after) = extract_all (before @ after)) \<and>
   (\<forall>d \<in> set (process_sanctions_data root).
      \<exists>e \<in> set (find_entities root). get_attr e ''action'' = Some ''add'' \<and> d = extract_entity_data e)"
proof -
  have a: "get_attr_default entity ''action'' [] \<noteq> ''add'' \<Longrightarrow>
      extract_all (before @ entity # after) = extract_all (before @ after)"
    by (simp add: extract_all_filter extract_non_add empty_data_def)
  have b: "\<forall>d \<in> set (process_sanctions_data root).
      \<exists>e \<in> set (find_entities root). get_attr e ''action'' = Some ''add'' \<and> d = extract_entity_data e"
    using rows_come_from_add[of _ "find_entities root"]
    by (auto simp: process_sanctions_data_def Let_def split: if_splits)
  from a b show ?thesis by (simp add: extract_non_add)
qed

text \<open>
  A document with an added, a modified and a deleted entity, all with names and identity
  documents: one row, for the added entity.
\<close>

theorem only_added_entities_give_rows_witness:
  "map (\<lambda>d. d ''Name'') (process_sanctions_data example_delta) = [''ALPHA CORP''] \<and>
   extract_entity_data (entity_elem ''modify'' ''BETA CORP'' five_docs) = empty_data \<and>
   extract_all ([entity_elem ''add'' ''ALPHA CORP'' five_docs] @
                entity_elem ''modify'' ''BETA CORP'' five_docs #
                [entity_elem ''delete'' ''GAMMA CORP'' five_docs]) =
   extract_all ([entity_elem ''add'' ''ALPHA CORP'' five_docs] @
                [entity_elem ''delete'' ''GAMMA CORP'' five_docs])"
proof -
  have n: "map (\<lambda>d. d ''Name'') (process_sanctions_data example_delta) = [''ALPHA CORP'']"
    by code_simp
  have a: "get_attr_default (entity_elem ''modify'' ''BETA CORP'' five_docs) ''action'' [] \<noteq> ''add''"
    by (simp add: entity_elem_def get_attr_default_def)
  show ?thesis
    using only_added_entities_give_rows[of "entity_elem ''modify'' ''BETA CORP'' five_docs"
        "[entity_elem ''add'' ''ALPHA CORP'' five_docs]"
        "[entity_elem ''delete'' ''GAMMA CORP'' five_docs]" example_delta] a n
    by blast
qed

lemma id_loop_two: "2 \<le> n \<Longrightarrow> id_loop docs n data = data"
  by (cases docs) simp_all

lemma id_loop_one:
  "id_loop docs (Suc 0) data =
     (case filter valid_id_doc docs of
        [] \<Rightarrow> data
      | b # rest \<Rightarrow> data(''ID_2'' := doc_number_of b, ''ID_Type2'' := doc_type_name_of b))"
  by (induction docs) (auto simp: id_loop_two Let_def fun_upd_def)

lemma id_loop_zero:
  "id_loop docs 0 data =
     (case filter valid_id_doc docs of
        [] \<Rightarrow> data
      | a # rest \<Rightarrow>
          (case rest of
             [] \<Rightarrow> data(''ID_1'' := doc_number_of a, ''ID_Type1'' := doc_type_name_of a)
           | b # rest' \<Rightarrow>
               data(''ID_1'' := doc_number_of a, ''ID_Type1'' := doc_type_name_of a,
                    ''ID_2'' := doc_number_of b, ''ID_Type2'' := doc_type_name_of b)))"
  by (induction docs) (auto simp: id_loop_one Let_def fun_upd_def split: list.splits)

lemma keep_type: "k \<in> id_keys \<Longrightarrow> extract_entity_type e data k = data k"
  by (auto simp: extract_entity_type_def id_keys_def Let_def split: option.splits)

lemma keep_name_step: "k \<in> id_keys \<Longrightarrow> fst (name_step p t st) k = fst st k"
  by (auto simp: name_step_def id_keys_def split: option.splits)

lemma keep_name_fold:
  "k \<in> id_keys \<Longrightarrow> fst (foldl (\<lambda>st' t. name_step p t st') st ts) k = fst st k"
  by (induction ts arbitrary: st) (simp_all add: keep_name_step)

lemma keep_names_fold:
  "k \<in> id_keys \<Longrightarrow>
   fst (foldl (\<lambda>st name. foldl (\<lambda>st' t. name_step (p name) t st') st (ts name)) st names) k = fst st k"
  by (induction names arbitrary: st) (simp_all add: keep_name_fold)

lemma keep_names: "k \<in> id_keys \<Longrightarrow> extract_names e data k = data k"
proof -
  assume k: "k \<in> id_keys"
  let ?st = "foldl (\<lambda>st name.
                      foldl (\<lambda>st' translation. name_step (find_child (ns ''isPrimary'') name) translation st')
                            st (findall_child2 (ns ''translations'') (ns ''translation'') name))
                   (data, []) (findall_desc2 (ns ''names'') (ns ''name'') e)"
  obtain d' al where eq: "?st = (d', al)" by (cases ?st)
  have "fst ?st k = data k"
    using keep_names_fold[OF k, of "\<lambda>name. find_child (ns ''isPrimary'') name"
        "\<lambda>name. findall_child2 (ns ''translations'') (ns ''translation'') name" "(data, [])"
        "findall_desc2 (ns ''names'') (ns ''name'') e"]
    by simp
  then have "d' k = data k" by (simp add: eq)
  moreover have "k \<noteq> ''Aliases''" using k by (auto simp: id_keys_def)
  ultimately show ?thesis by (simp add: extract_names_def Let_def eq)
qed

lemma keep_birthdate: "k \<in> id_keys \<Longrightarrow> birthdate v data k = data k"
  by (auto simp: birthdate_def id_keys_def Let_def split: option.splits)

lemma keep_feature_step:
  assumes "k \<in> id_keys"
  shows "fst (feature_step f st) k = fst st k"
proof -
  obtain data nats vf where st: "st = (data, nats, vf)" by (cases st)
  have ne: "k \<noteq> ''Place of Birth''" "k \<noteq> ''Gender''"
    using assms by (auto simp: id_keys_def)
  show ?thesis
    unfolding feature_step_def st
    by (simp add: Let_def keep_birthdate[OF assms] ne split: option.splits)
qed

lemma keep_features:
  "k \<in> id_keys \<Longrightarrow> fst (foldl (\<lambda>st f. feature_step f st) st fs) k = fst st k"
  by (induction fs arbitrary: st) (simp_all add: keep_feature_step)

lemma keep_country: "k \<in> id_keys \<Longrightarrow> extract_country e vf data k = data k"
  by (auto simp: extract_country_def id_keys_def Let_def split: list.splits)

lemma keep_sanctions_list: "k \<in> id_keys \<Longrightarrow> extract_sanctions_list e data k = data k"
  by (auto simp: extract_sanctions_list_def id_keys_def Let_def split: option.splits)

lemma keep_programs: "k \<in> id_keys \<Longrightarrow> extract_programs e data k = data k"
  by (auto simp: extract_programs_def id_keys_def Let_def)

lemma id_loop_fields:
  "id_loop docs 0 data ''ID_1'' =
     (case filter valid_id_doc docs of [] \<Rightarrow> data ''ID_1'' | a # rest \<Rightarrow> doc_number_of a)"
  "id_loop docs 0 data ''ID_Type1'' =
     (case filter valid_id_doc docs of [] \<Rightarrow> data ''ID_Type1'' | a # rest \<Rightarrow> doc_type_name_of a)"
  "id_loop docs 0 data ''ID_2'' =
     (case drop 1 (filter valid_id_doc docs) of [] \<Rightarrow> data ''ID_2'' | b # rest \<Rightarrow> doc_number_of b)"
  "id_loop docs 0 data ''ID_Type2'' =
     (case drop 1 (filter valid_id_doc docs) of [] \<Rightarrow> data ''ID_Type2'' | b # rest \<Rightarrow> doc_type_name_of b)"
  by (simp_all add: id_loop_zero split: list.splits)

lemma extract_entity_data_add:
  assumes "get_attr_default entity ''action'' [] = ''add''"
    and "foldl (\<lambda>st feature. feature_step feature st)
               (extract_names entity (extract_entity_type entity empty_data), [], [])
               (findall_desc2 (ns ''features'') (ns ''feature'') entity) = (d1, nats, vf)"
  shows "extract_entity_data entity =
      extract_programs entity (extract_sanctions_list entity (id_loop (id_docs entity) 0
        (extract_country entity vf
           (d1(''Nationality'' := (if nats \<noteq> [] then join ''; '' nats else []))))))"
  unfolding extract_entity_data_def Let_def
  by (simp only: assms prod.case) simp


lemma id_keys_empty_before_loop:
  assumes "foldl (\<lambda>st feature. feature_step feature st)
               (extract_names entity (extract_entity_type entity empty_data), [], [])
               (findall_desc2 (ns ''features'') (ns ''feature'') entity) = (d1, nats, vf)"
    and "k \<in> id_keys"
  shows "extract_country entity vf
           (d1(''Nationality'' := (if nats \<noteq> [] then join ''; '' nats else []))) k = []"
proof -
  have "fst (foldl (\<lambda>st feature. feature_step feature st)
               (extract_names entity (extract_entity_type entity empty_data), [], [])
               (findall_desc2 (ns ''features'') (ns ''feature'') entity)) k =
        extract_names entity (extract_entity_type entity empty_data) k"
    using keep_features[OF assms(2)] by simp
  then have "d1 k = empty_data k"
    by (simp add: assms(1) keep_names[OF assms(2)] keep_type[OF assms(2)])
  moreover have "k \<noteq> ''Nationality''" using assms(2) by (auto simp: id_keys_def)
  ultimately show ?thesis by (simp add: keep_country[OF assms(2)] empty_data_def)
qed


text \<open>
  C8 (as amended). For an added entity, ID\_1/ID\_Type1 and ID\_2/ID\_Type2 come from the
  first two identity-document elements that have a type element and a document number
  with text (documents without them are passed over and do not count); when there are
  fewer, the remaining fields stay empty, and later documents are dropped. The type
  reference is mapped through the fixed table; an id that is not in it is rendered as
  \<open>Doc Type\<close> followed by the id.
\<close>

theorem first_two_valid_documents_kept:
  assumes "get_attr_default entity ''action'' [] = ''add''"
    and "valid = filter valid_id_doc (id_docs entity)"
  shows "extract_entity_data entity ''ID_1'' = (case valid of [] \<Rightarrow> [] | a # rest \<Rightarrow> doc_number_of a) \<and>
         extract_entity_data entity ''ID_Type1'' = (case valid of [] \<Rightarrow> [] | a # rest \<Rightarrow> doc_type_name_of a) \<and>
         extract_entity_data entity ''ID_2'' = (case drop 1 valid of [] \<Rightarrow> [] | b # rest \<Rightarrow> doc_number_of b) \<and>
         extract_entity_data entity ''ID_Type2'' = (case drop 1 valid of [] \<Rightarrow> [] | b # rest \<Rightarrow> doc_type_name_of b) \<and>
         get_document_type_name (Some r) =
           (case map_of doc_type_map r of Some name \<Rightarrow> name | None \<Rightarrow> ''Doc Type '' @ r)"
proof -
  let ?fs = "foldl (\<lambda>st feature. feature_step feature st)
               (extract_names entity (extract_entity_type entity empty_data), [], [])
               (findall_desc2 (ns ''features'') (ns ''feature'') entity)"
  obtain d1 nats vf where fs: "?fs = (d1, nats, vf)" by (cases ?fs)
  define d2 where "d2 = extract_country entity vf
           (d1(''Nationality'' := (if nats \<noteq> [] then join ''; '' nats else [])))"
  have e: "extract_entity_data entity =
      extract_programs entity (extract_sanctions_list entity (id_loop (id_docs entity) 0 d2))"
    unfolding d2_def by (rule extract_entity_data_add[OF assms(1) fs])
  have z: "\<And>k. k \<in> id_keys \<Longrightarrow> d2 k = []"
    unfolding d2_def by (rule id_keys_empty_before_loop[OF fs])
  have k: "''ID_1'' \<in> id_keys" "''ID_Type1'' \<in> id_keys" "''ID_2'' \<in> id_keys" "''ID_Type2'' \<in> id_keys"
    by (simp_all add: id_keys_def)
  have m: "get_document_type_name (Some r) =
           (case map_of doc_type_map r of Some name \<Rightarrow> name | None \<Rightarrow> ''Doc Type '' @ r)"
    by (simp add: get_document_type_name_def split: option.splits)
  show ?thesis
    unfolding e assms(2)
    by (simp add: m keep_programs[OF k(1)] keep_programs[OF k(2)] keep_programs[OF k(3)] keep_programs[OF k(4)]
        keep_sanctions_list[OF k(1)] keep_sanctions_list[OF k(2)] keep_sanctions_list[OF k(3)]
        keep_sanctions_list[OF k(4)] id_loop_fields z[OF k(1)] z[OF k(2)] z[OF k(3)] z[OF k(4)] cong: list.case_cong)
qed

text \<open>An entity with five identity documents, the second of a type that is not mapped.\<close>

theorem first_two_valid_documents_kept_witness:
  "extract_entity_data (entity_elem ''add'' ''ALPHA CORP'' five_docs) ''ID_1'' = ''P-100'' \<and>
   extract_entity_data (entity_elem ''add'' ''ALPHA CORP'' five_docs) ''ID_Type1'' = ''Passport'' \<and>
   extract_entity_data (entity_elem ''add'' ''ALPHA CORP'' five_docs) ''ID_2'' = ''X-200'' \<and>
   extract_entity_data (entity_elem ''add'' ''ALPHA CORP'' five_docs) ''ID_Type2'' = ''Doc Type 9999'' \<and>
   get_document_type_name (Some ''9999'') = ''Doc Type 9999''"
proof -
  let ?e = "entity_elem ''add'' ''ALPHA CORP'' five_docs"
  have a: "get_attr_default ?e ''action'' [] = ''add''"
    by (simp add: entity_elem_def get_attr_default_def)
  have v: "five_docs = filter valid_id_doc (id_docs ?e)" by code_simp
  have f: "five_docs = id_doc ''1571'' ''P-100'' # id_doc ''9999'' ''X-200'' #
      [id_doc ''1584'' ''N-300'', id_doc ''1576'' ''T-400'', id_doc ''1575'' ''D-500'']"
    by (simp add: five_docs_def)
  have n: "doc_number_of (id_doc ''1571'' ''P-100'') = ''P-100''"
    "doc_type_name_of (id_doc ''1571'' ''P-100'') = ''Passport''"
    "doc_number_of (id_doc ''9999'' ''X-200'') = ''X-200''"
    "doc_type_name_of (id_doc ''9999'' ''X-200'') = ''Doc Type 9999''"
    "map_of doc_type_map ''9999'' = None"
    by code_simp+
  show ?thesis
    using first_two_valid_documents_kept[OF a v, of "''9999''"] by (simp add: f n)
qed

text \<open>
  An entity whose first identity document has no number: ID\_2 is taken from the third
  document, not from the first two.
\<close>

theorem second_id_from_third_document:
  "map doc_number_of (take 2 (id_docs (entity_elem ''add'' ''ALPHA CORP'' gap_docs))) = [[], ''N-300''] \<and>
   doc_number_of (id_docs (entity_elem ''add'' ''ALPHA CORP'' gap_docs) ! 2) = ''T-400'' \<and>
   extract_entity_data (entity_elem ''add'' ''ALPHA CORP'' gap_docs) ''ID_1'' = ''N-300'' \<and>
   extract_entity_data (entity_elem ''add'' ''ALPHA CORP'' gap_docs) ''ID_2'' = ''T-400''"
  by code_simp

section \<open>Properties of the UN parser\<close>

lemma collect_filter:
  "collect f tds rs = map f (filter (\<lambda>r. listed_date r \<in> Some ` set tds) rs)"
  by (induction rs) (auto split: option.splits)


text \<open>
  C7. With \<open>dg\<close> the generation date of the document and \<open>yesterday\<close> the day before it,
  the parser returns, for each of the sections INDIVIDUALS and ENTITIES, the records whose
  LISTED\_ON date is \<open>dg\<close> or \<open>yesterday\<close>, in document order, and no others. A record
  without LISTED\_ON, or with one that has no text or does not parse, has no listing date
  and is left out without an error; a missing section gives no records.
\<close>

theorem un_listing_window:
  assumes "date_generated today root = Inr dg" and "prev_day dg = Some yesterday"
  shows "parse_un_sanctions_xml today root =
           Inr ((case find_child ''INDIVIDUALS'' root of
                   None \<Rightarrow> []
                 | Some individuals_section \<Rightarrow>
                     map extract_individual_data
                       (filter (\<lambda>r. listed_date r = Some dg \<or> listed_date r = Some yesterday)
                          (findall_child ''INDIVIDUAL'' individuals_section))),
                (case find_child ''ENTITIES'' root of
                   None \<Rightarrow> []
                 | Some entities_section \<Rightarrow>
                     map un_extract_entity_data
                       (filter (\<lambda>r. listed_date r = Some dg \<or> listed_date r = Some yesterday)
                          (findall_child ''ENTITY'' entities_section))))"
proof -
  have w: "\<And>r. (listed_date r \<in> Some ` set [dg, yesterday]) =
      (listed_date r = Some dg \<or> listed_date r = Some yesterday)"
    by auto
  show ?thesis
    using assms by (simp add: parse_un_sanctions_xml_def Let_def collect_filter w cong: option.case_cong)
qed

text \<open>
  A list generated at 2025-07-30T23:00:05.333Z with individuals listed on the 30th, 29th,
  28th and 31st of July, one with a date in another format and one with no date; it has no
  ENTITIES section.
\<close>

theorem un_listing_window_witness:
  "date_generated some_day un_example = Inr \<lparr>year = 2025, month = 7, day = 30\<rparr> \<and>
   prev_day \<lparr>year = 2025, month = 7, day = 30\<rparr> = Some \<lparr>year = 2025, month = 7, day = 29\<rparr> \<and>
   prev_day \<lparr>year = 2024, month = 3, day = 1\<rparr> = Some \<lparr>year = 2024, month = 2, day = 29\<rparr> \<and>
   prev_day \<lparr>year = 2025, month = 1, day = 1\<rparr> = Some \<lparr>year = 2024, month = 12, day = 31\<rparr> \<and>
   (case find_child ''INDIVIDUALS'' un_example of
      None \<Rightarrow> []
    | Some individuals_section \<Rightarrow> map listed_date (findall_child ''INDIVIDUAL'' individuals_section)) =
     [Some \<lparr>year = 2025, month = 7, day = 30\<rparr>, Some \<lparr>year = 2025, month = 7, day = 29\<rparr>,
      Some \<lparr>year = 2025, month = 7, day = 28\<rparr>, Some \<lparr>year = 2025, month = 7, day = 31\<rparr>,
      None, None] \<and>
   (case parse_un_sanctions_xml some_day un_example of
      Inl e \<Rightarrow> False
    | Inr (individuals_data, entities_data) \<Rightarrow>
        map (\<lambda>d. d ''Name'') individuals_data = [''ANNA ONE'', ''BEN TWO''] \<and> entities_data = [])"
proof -
  have r: "replace_Z ''2025-07-30T23:00:05.333Z'' = ''2025-07-30T23:00:05.333+00:00''"
    by (simp add: replace_Z_def)
  have t: "valid_time_part ''23:00:05.333+00:00''"
    by (simp add: valid_time_part_def parse_hh_mm_ss_ff_def two_digits_def is_digit_def is_sign_def
        int_of_digits_def digit_val_def Let_def)
  have f: "fromisoformat_date ''2025-07-30T23:00:05.333+00:00'' =
      Some \<lparr>year = 2025, month = 7, day = 30\<rparr>"
    by (simp add: fromisoformat_date_def t two_digits_def is_digit_def int_of_digits_def digit_val_def
        make_date_def days_in_month_def is_leap_def Let_def)
  have d: "date_generated some_day un_example = Inr \<lparr>year = 2025, month = 7, day = 30\<rparr>"
    by (simp add: date_generated_def get_attr_def un_example_def r f)
  have p: "prev_day \<lparr>year = 2025, month = 7, day = 30\<rparr> = Some \<lparr>year = 2025, month = 7, day = 29\<rparr>"
    by (simp add: prev_day_def)
  have l: "(case find_child ''INDIVIDUALS'' un_example of
      None \<Rightarrow> []
    | Some individuals_section \<Rightarrow> map listed_date (findall_child ''INDIVIDUAL'' individuals_section)) =
     [Some \<lparr>year = 2025, month = 7, day = 30\<rparr>, Some \<lparr>year = 2025, month = 7, day = 29\<rparr>,
      Some \<lparr>year = 2025, month = 7, day = 28\<rparr>, Some \<lparr>year = 2025, month = 7, day = 31\<rparr>,
      None, None]"
    by code_simp
  have i: "map (\<lambda>d. d ''Name'')
     (case find_child ''INDIVIDUALS'' un_example of
        None \<Rightarrow> []
      | Some individuals_section \<Rightarrow>
          map extract_individual_data
            (filter (\<lambda>r. listed_date r = Some \<lparr>year = 2025, month = 7, day = 30\<rparr> \<or>
                         listed_date r = Some \<lparr>year = 2025, month = 7, day = 29\<rparr>)
               (findall_child ''INDIVIDUAL'' individuals_section))) = [''ANNA ONE'', ''BEN TWO'']"
    by code_simp
  have e: "find_child ''ENTITIES'' un_example = None" by code_simp
  have w: "(case parse_un_sanctions_xml some_day un_example of
      Inl e \<Rightarrow> False
    | Inr (individuals_data, entities_data) \<Rightarrow>
        map (\<lambda>d. d ''Name'') individuals_data = [''ANNA ONE'', ''BEN TWO''] \<and> entities_data = [])"
    unfolding un_listing_window[OF d p] using i by (simp add: e)
  have q: "prev_day \<lparr>year = 2024, month = 3, day = 1\<rparr> = Some \<lparr>year = 2024, month = 2, day = 29\<rparr>"
    "prev_day \<lparr>year = 2025, month = 1, day = 1\<rparr> = Some \<lparr>year = 2024, month = 12, day = 31\<rparr>"
    by (simp_all add: prev_day_def days_in_month_def is_leap_def)
  from d p q l w show ?thesis by blast
qed

section \<open>Properties of the document-derived extractor\<close>

lemma add_char_small:
  "length (rd_field r) < 1000 \<Longrightarrow> parse_add_char c r = Some (r\<lparr>rd_field := rd_field r @ [c]\<rparr>)"
  by (simp add: parse_add_char_def field_size_limit_def)

lemma validate_iff:
  "validate_csv_structure csv_text \<longleftrightarrow>
     (\<exists>headers. next_row csv_text = Row headers \<and> length headers = 17)"
  by (auto simp: validate_csv_structure_def expected_headers_def split: next_result.splits)

lemma finish_conversion_result:
  assumes "process_markdown_file w content (if encoded then ''base64'' else ''text'') = Inr response"
  shows "finish_conversion w output_path encoded content =
           (\<not> validate_csv_structure (clean_csv_response response),
            case given output_path of
              None \<Rightarrow> Success (clean_csv_response response) output_path
            | Some path \<Rightarrow>
                if save_csv_file w (clean_csv_response response) path
                then Success (clean_csv_response response) output_path
                else Failure ''Failed to save CSV file'')"
  using assms by (simp add: finish_conversion_def Let_def split: option.splits)

lemma convert_no_content:
  assumes "given markdown_file_path = None" "given markdown_content = None"
  shows "convert_markdown_to_csv w markdown_file_path markdown_content output_path encoded =
           (False, Failure ''No markdown content provided'')"
  using assms by (simp add: convert_markdown_to_csv_def)

lemma convert_unreadable:
  assumes "given markdown_file_path = Some path" "read_file w path = Inl e"
  shows "convert_markdown_to_csv w markdown_file_path markdown_content output_path encoded =
           (False, Failure e)"
  using assms by (simp add: convert_markdown_to_csv_def)

lemma convert_with_content:
  assumes "(given markdown_file_path = Some path \<and> read_file w path = Inr content) \<or>
           (given markdown_file_path = None \<and> given markdown_content = Some content)"
  shows "convert_markdown_to_csv w markdown_file_path markdown_content output_path encoded =
           finish_conversion w output_path encoded content"
  using assms by (auto simp: convert_markdown_to_csv_def)

lemma finish_conversion_raises:
  assumes "process_markdown_file w content (if encoded then ''base64'' else ''text'') = Inl e"
  shows "finish_conversion w output_path encoded content = (False, Failure e)"
  using assms by (simp add: finish_conversion_def)

lemma finish_conversion_fails_iff:
  "(\<exists>e. snd (finish_conversion w output_path encoded content) = Failure e) \<longleftrightarrow>
     (\<exists>e. process_markdown_file w content (if encoded then ''base64'' else ''text'') = Inl e) \<or>
     (\<exists>response p. process_markdown_file w content (if encoded then ''base64'' else ''text'') = Inr response \<and>
        given output_path = Some p \<and> \<not> save_csv_file w (clean_csv_response response) p)"
proof (cases "process_markdown_file w content (if encoded then ''base64'' else ''text'')")
  case (Inl a)
  then show ?thesis by (simp add: finish_conversion_raises)
next
  case (Inr response)
  show ?thesis
    unfolding finish_conversion_result[OF Inr] Inr
    by (cases "given output_path") auto
qed

lemma convert_fails_iff:
  "(\<exists>e. snd (convert_markdown_to_csv w markdown_file_path markdown_content output_path encoded) = Failure e) \<longleftrightarrow>
     (given markdown_file_path = None \<and> given markdown_content = None) \<or>
     (\<exists>p e. given markdown_file_path = Some p \<and> read_file w p = Inl e) \<or>
     (\<exists>c. ((\<exists>p. given markdown_file_path = Some p \<and> read_file w p = Inr c) \<or>
           (given markdown_file_path = None \<and> given markdown_content = Some c)) \<and>
          ((\<exists>e. process_markdown_file w c (if encoded then ''base64'' else ''text'') = Inl e) \<or>
           (\<exists>response p. process_markdown_file w c (if encoded then ''base64'' else ''text'') = Inr response \<and>
              given output_path = Some p \<and> \<not> save_csv_file w (clean_csv_response response) p)))"
proof (cases "given markdown_file_path")
  case None
  show ?thesis
  proof (cases "given markdown_content")
    case n: None
    with None show ?thesis by (simp add: convert_no_content)
  next
    case (Some content)
    have "convert_markdown_to_csv w markdown_file_path markdown_content output_path encoded =
        finish_conversion w output_path encoded content"
      using None Some by (intro convert_with_content) simp
    then show ?thesis
      using None Some finish_conversion_fails_iff[of w output_path encoded content] by simp
  qed
next
  case (Some path)
  show ?thesis
  proof (cases "read_file w path")
    case (Inl e)
    with Some show ?thesis by (simp add: convert_unreadable)
  next
    case (Inr content)
    have "convert_markdown_to_csv w markdown_file_path markdown_content output_path encoded =
        finish_conversion w output_path encoded content"
      using Some Inr by (intro convert_with_content) simp
    then show ?thesis
      using Some Inr finish_conversion_fails_iff[of w output_path encoded content] by simp
  qed
qed

text \<open>
  C9 (as amended). The structural validation accepts a text exactly when its first row
  parses to a header of 17 columns. Once the content is there and the service has
  answered, the conversion returns the cleaned response whatever the validation says; a
  mismatch only sets the warning. The error result is returned when no content is
  provided, when the input file cannot be read, when the service call fails, and when
  saving to the requested output path fails, each with its message, and in no other case.
\<close>

theorem validation_only_warns:
  "(validate_csv_structure csv_text \<longleftrightarrow>
      (\<exists>headers. next_row csv_text = Row headers \<and> length headers = 17)) \<and>
   (given markdown_file_path = None \<and> given markdown_content = None \<longrightarrow>
      convert_markdown_to_csv w markdown_file_path markdown_content output_path encoded =
        (False, Failure ''No markdown content provided'')) \<and>
   (given markdown_file_path = Some path \<and> read_file w path = Inl e \<longrightarrow>
      convert_markdown_to_csv w markdown_file_path markdown_content output_path encoded =
        (False, Failure e)) \<and>
   (((given markdown_file_path = Some path \<and> read_file w path = Inr content) \<or>
     (given markdown_file_path = None \<and> given markdown_content = Some content)) \<and>
    process_markdown_file w content (if encoded then ''base64'' else ''text'') = Inl e \<longrightarrow>
      convert_markdown_to_csv w markdown_file_path markdown_content output_path encoded =
        (False, Failure e)) \<and>
   (((given markdown_file_path = Some path \<and> read_file w path = Inr content) \<or>
     (given markdown_file_path = None \<and> given markdown_content = Some content)) \<and>
    process_markdown_file w content (if encoded then ''base64'' else ''text'') = Inr response \<longrightarrow>
      convert_markdown_to_csv w markdown_file_path markdown_content output_path encoded =
        (\<not> validate_csv_structure (clean_csv_response response),
         case given output_path of
           None \<Rightarrow> Success (clean_csv_response response) output_path
         | Some out_path \<Rightarrow>
             if save_csv_file w (clean_csv_response response) out_path
             then Success (clean_csv_response response) output_path
             else Failure ''Failed to save CSV file'')) \<and>
   ((\<exists>e. snd (convert_markdown_to_csv w markdown_file_path markdown_content output_path encoded) = Failure e) \<longleftrightarrow>
      (given markdown_file_path = None \<and> given markdown_content = None) \<or>
      (\<exists>p e. given markdown_file_path = Some p \<and> read_file w p = Inl e) \<or>
      (\<exists>c. ((\<exists>p. given markdown_file_path = Some p \<and> read_file w p = Inr c) \<or>
            (given markdown_file_path = None \<and> given markdown_content = Some c)) \<and>
           ((\<exists>e. process_markdown_file w c (if encoded then ''base64'' else ''text'') = Inl e) \<or>
            (\<exists>response p. process_markdown_file w c (if encoded then ''base64'' else ''text'') = Inr response \<and>
               given output_path = Some p \<and> \<not> save_csv_file w (clean_csv_response response) p))))"
proof -
  have c: "((given markdown_file_path = Some path \<and> read_file w path = Inr content) \<or>
     (given markdown_file_path = None \<and> given markdown_content = Some content)) \<and>
    process_markdown_file w content (if encoded then ''base64'' else ''text'') = Inl e \<longrightarrow>
      convert_markdown_to_csv w markdown_file_path markdown_content output_path encoded =
        (False, Failure e)"
    using convert_with_content[of markdown_file_path path w content markdown_content output_path encoded]
      finish_conversion_raises[of w content encoded e output_path]
    by auto
  have d: "((given markdown_file_path = Some path \<and> read_file w path = Inr content) \<or>
     (given markdown_file_path = None \<and> given markdown_content = Some content)) \<and>
    process_markdown_file w content (if encoded then ''base64'' else ''text'') = Inr response \<longrightarrow>
      convert_markdown_to_csv w markdown_file_path markdown_content output_path encoded =
        (\<not> validate_csv_structure (clean_csv_response response),
         case given output_path of
           None \<Rightarrow> Success (clean_csv_response response) output_path
         | Some out_path \<Rightarrow>
             if save_csv_file w (clean_csv_response response) out_path
             then Success (clean_csv_response response) output_path
             else Failure ''Failed to save CSV file'')"
    using convert_with_content[of markdown_file_path path w content markdown_content output_path encoded]
      finish_conversion_result[of w content encoded response output_path]
    by auto
  show ?thesis
    apply (intro conjI)
         apply (rule validate_iff)
        apply (simp add: convert_no_content)
       apply (simp add: convert_unreadable)
      apply (rule c)
     apply (rule d)
    apply (rule convert_fails_iff)
    done
qed

text \<open>
  The well-formed response is accepted; the three-column table is not, and is returned as a
  success with the warning. An empty file path with no content, an unreadable file and a
  failing service call each give the error result.
\<close>

theorem validation_only_warns_witness:
  "validate_csv_structure (clean_csv_response good_response) \<and>
   \<not> validate_csv_structure (clean_csv_response short_response) \<and>
   convert_markdown_to_csv world_short_table None (Some ''# list'') None False =
     (True, Success short_response None) \<and>
   convert_markdown_to_csv world_save_fails None (Some ''# list'') None False =
     (False, Success (header_line @ CHR 0x0A # record_line) None) \<and>
   convert_markdown_to_csv world_short_table (Some []) None None False =
     (False, Failure ''No markdown content provided'') \<and>
   convert_markdown_to_csv world_short_table (Some ''list.md'') (Some ''# list'') None False =
     (False, Failure ''No such file or directory'') \<and>
   convert_markdown_to_csv world_service_fails (Some ''list.md'') None (Some ''out.csv'') False =
     (False, Failure ''Error processing markdown: timeout'')"
proof -
  have c1: "clean_csv_response good_response = header_line @ CHR 0x0A # record_line"
    by code_simp
  have c2: "clean_csv_response short_response = short_response" by code_simp
  have n1: "next_row (header_line @ CHR 0x0A # record_line) = Row expected_headers"
    by (simp add: next_row_def header_line_def expected_headers_def record_line_def
        parse_process_char_def start_field_def add_char_small parse_save_field_def is_newline_def
        after_eol_def)
  have n2: "next_row short_response = Row [''Name'', ''Type'', ''Watchlist'']"
    by (simp add: next_row_def short_response_def parse_process_char_def start_field_def
        add_char_small parse_save_field_def is_newline_def after_eol_def)
  have l1: "\<exists>headers. next_row (clean_csv_response good_response) = Row headers \<and> length headers = 17"
    unfolding c1 n1 by (simp add: expected_headers_def)
  have l2: "\<not> (\<exists>headers. next_row (clean_csv_response short_response) = Row headers \<and> length headers = 17)"
    unfolding c2 n2 by simp
  have v1: "validate_csv_structure (clean_csv_response good_response)"
    using validation_only_warns[where csv_text = "clean_csv_response good_response"
        and w = world_short_table and markdown_file_path = None and markdown_content = None
        and output_path = None and encoded = False and path = "[]" and e = "[]" and content = "[]"
        and response = "[]"] l1
    by blast
  have v2: "\<not> validate_csv_structure (clean_csv_response short_response)"
    using validation_only_warns[where csv_text = "clean_csv_response short_response"
        and w = world_short_table and markdown_file_path = None and markdown_content = None
        and output_path = None and encoded = False and path = "[]" and e = "[]" and content = "[]"
        and response = "[]"] l2
    by blast
  have h3: "((given None = Some [] \<and> read_file world_short_table [] = Inr ''# list'') \<or>
       (given None = None \<and> given (Some ''# list'') = Some ''# list'')) \<and>
      process_markdown_file world_short_table ''# list'' (if False then ''base64'' else ''text'') =
        Inr short_response"
    by (simp add: world_short_table_def)
  have "convert_markdown_to_csv world_short_table None (Some ''# list'') None False =
      (\<not> validate_csv_structure (clean_csv_response short_response),
       case given None of
         None \<Rightarrow> Success (clean_csv_response short_response) None
       | Some out_path \<Rightarrow>
           if save_csv_file world_short_table (clean_csv_response short_response) out_path
           then Success (clean_csv_response short_response) None
           else Failure ''Failed to save CSV file'')"
    using validation_only_warns[where csv_text = "[]"
        and w = world_short_table and markdown_file_path = None and markdown_content = "Some ''# list''"
        and output_path = None and encoded = False and path = "[]" and e = "[]"
        and content = "''# list''" and response = short_response] h3
    by blast
  then have a: "convert_markdown_to_csv world_short_table None (Some ''# list'') None False =
      (True, Success short_response None)"
    using v2 by (simp add: c2)
  have h4: "((given None = Some [] \<and> read_file world_save_fails [] = Inr ''# list'') \<or>
       (given None = None \<and> given (Some ''# list'') = Some ''# list'')) \<and>
      process_markdown_file world_save_fails ''# list'' (if False then ''base64'' else ''text'') =
        Inr good_response"
    by (simp add: world_save_fails_def)
  have "convert_markdown_to_csv world_save_fails None (Some ''# list'') None False =
      (\<not> validate_csv_structure (clean_csv_response good_response),
       case given None of
         None \<Rightarrow> Success (clean_csv_response good_response) None
       | Some out_path \<Rightarrow>
           if save_csv_file world_save_fails (clean_csv_response good_response) out_path
           then Success (clean_csv_response good_response) None
           else Failure ''Failed to save CSV file'')"
    using validation_only_warns[where csv_text = "[]"
        and w = world_save_fails and markdown_file_path = None and markdown_content = "Some ''# list''"
        and output_path = None and encoded = False and path = "[]" and e = "[]"
        and content = "''# list''" and response = good_response] h4
    by blast
  then have b: "convert_markdown_to_csv world_save_fails None (Some ''# list'') None False =
      (False, Success (header_line @ CHR 0x0A # record_line) None)"
    using v1 by (simp add: c1)
  have h5: "given (Some []) = None \<and> given None = None" by simp
  have c: "convert_markdown_to_csv world_short_table (Some []) None None False =
      (False, Failure ''No markdown content provided'')"
    using validation_only_warns[where csv_text = "[]"
        and w = world_short_table and markdown_file_path = "Some []" and markdown_content = None
        and output_path = None and encoded = False and path = "[]" and e = "[]"
        and content = "[]" and response = "[]"] h5
    by blast
  have h6: "given (Some ''list.md'') = Some ''list.md'' \<and>
      read_file world_short_table ''list.md'' = Inl ''No such file or directory''"
    by (simp add: world_short_table_def)
  have d: "convert_markdown_to_csv world_short_table (Some ''list.md'') (Some ''# list'') None False =
      (False, Failure ''No such file or directory'')"
    using validation_only_warns[where csv_text = "[]"
        and w = world_short_table and markdown_file_path = "Some ''list.md''"
        and markdown_content = "Some ''# list''"
        and output_path = None and encoded = False and path = "''list.md''"
        and e = "''No such file or directory''" and content = "[]" and response = "[]"] h6
    by blast
  have h7: "((given (Some ''list.md'') = Some ''list.md'' \<and>
        read_file world_service_fails ''list.md'' = Inr ''# list'') \<or>
       (given (Some ''list.md'') = None \<and> given None = Some ''# list'')) \<and>
      process_markdown_file world_service_fails ''# list'' (if False then ''base64'' else ''text'') =
        Inl ''Error processing markdown: timeout''"
    by (simp add: world_service_fails_def)
  have e: "convert_markdown_to_csv world_service_fails (Some ''list.md'') None (Some ''out.csv'') False =
      (False, Failure ''Error processing markdown: timeout'')"
    using validation_only_warns[where csv_text = "[]"
        and w = world_service_fails and markdown_file_path = "Some ''list.md''"
        and markdown_content = None
        and output_path = "Some ''out.csv''" and encoded = False and path = "''list.md''"
        and e = "''Error processing markdown: timeout''" and content = "''# list''"
        and response = "[]"] h7
    by blast
  from v1 v2 a b c d e show ?thesis by blast
qed

text \<open>
  The service answers with the well-formed response, which the validation accepts, and the
  output cannot be saved: the result is the error result.
\<close>

theorem save_failure_gives_error_result:
  "process_markdown_file world_save_fails ''# list'' ''text'' = Inr good_response \<and>
   convert_markdown_to_csv world_save_fails None (Some ''# list'') (Some ''out.csv'') False =
     (False, Failure ''Failed to save CSV file'')"
proof -
  have c1: "clean_csv_response good_response = header_line @ CHR 0x0A # record_line"
    by code_simp
  have n1: "next_row (header_line @ CHR 0x0A # record_line) = Row expected_headers"
    by (simp add: next_row_def header_line_def expected_headers_def record_line_def
        parse_process_char_def start_field_def add_char_small parse_save_field_def is_newline_def
        after_eol_def)
  have v: "validate_csv_structure (clean_csv_response good_response)"
    by (simp add: validate_csv_structure_def c1 n1)
  show ?thesis
    by (simp add: convert_markdown_to_csv_def finish_conversion_def world_save_fails_def Let_def v)
qed

end
